theory Spec2Isabelle
  imports Complex_Main
begin

section \<open>Texts\<close>

text \<open>
  A Python string is modelled as an Isabelle string: a \<^typ>\<open>char\<close> stands for the code
  point of the same number, so the model covers the texts whose code points lie in
  0..255. The character classes below are Python's on that range: \<open>str.isspace\<close>
  (which is also the class \<open>\s\<close> of a \<open>str\<close> pattern), the word characters \<open>\w\<close>
  (alphanumeric or underscore), and \<open>str.upper\<close> / \<open>str.lower\<close>.
\<close>

definition between :: "char \<Rightarrow> char \<Rightarrow> char \<Rightarrow> bool" where
  "between lo hi c = ((of_char lo :: nat) \<le> of_char c \<and> (of_char c :: nat) \<le> of_char hi)"

definition isspace :: "char \<Rightarrow> bool" where
  "isspace c = (c \<in> set [CHR 0x09, CHR 0x0A, CHR 0x0B, CHR 0x0C, CHR 0x0D,
                          CHR 0x1C, CHR 0x1D, CHR 0x1E, CHR 0x1F, CHR 0x20, CHR 0x85, CHR 0xA0])"

definition isdigit :: "char \<Rightarrow> bool" where
  "isdigit c = between (CHR ''0'') (CHR ''9'') c"

text \<open>\<open>\w\<close>: the letters and numeric characters of the range, and the underscore.\<close>

definition is_word :: "char \<Rightarrow> bool" where
  "is_word c = (between (CHR ''a'') (CHR ''z'') c \<or> between (CHR ''A'') (CHR ''Z'') c
     \<or> isdigit c \<or> c = CHR ''_''
     \<or> c \<in> set [CHR 0xAA, CHR 0xB2, CHR 0xB3, CHR 0xB5, CHR 0xB9, CHR 0xBA, CHR 0xBC, CHR 0xBD, CHR 0xBE]
     \<or> between (CHR 0xC0) (CHR 0xD6) c \<or> between (CHR 0xD8) (CHR 0xF6) c
     \<or> between (CHR 0xF8) (CHR 0xFF) c)"

text \<open>
  \<open>str.upper\<close>, character by character. Three characters of the range have an upper-case
  form outside it (0xB5, 0xDF, 0xFF); they are left as they are, which keeps them the
  word characters they are and never produces a letter of \<open>CAT\<close> or a digit. The two
  cases of a letter differ by 32, which is bit 5 of the code point: set in the lower-case
  letter, clear in the upper-case one.
\<close>

definition upper_char :: "char \<Rightarrow> char" where
  "upper_char c =
     (if between (CHR ''a'') (CHR ''z'') c \<or> between (CHR 0xE0) (CHR 0xF6) c
         \<or> between (CHR 0xF8) (CHR 0xFE) c
      then (case c of Char b0 b1 b2 b3 b4 b5 b6 b7 \<Rightarrow> Char b0 b1 b2 b3 b4 False b6 b7)
      else c)"

definition lower_char :: "char \<Rightarrow> char" where
  "lower_char c =
     (if between (CHR ''A'') (CHR ''Z'') c \<or> between (CHR 0xC0) (CHR 0xD6) c
         \<or> between (CHR 0xD8) (CHR 0xDE) c
      then (case c of Char b0 b1 b2 b3 b4 b5 b6 b7 \<Rightarrow> Char b0 b1 b2 b3 b4 True b6 b7)
      else c)"

definition upper :: "string \<Rightarrow> string" where
  "upper s = map upper_char s"

definition lower :: "string \<Rightarrow> string" where
  "lower s = map lower_char s"

text \<open>\<open>s.strip()\<close> removes the white space at both ends.\<close>

definition strip :: "string \<Rightarrow> string" where
  "strip s = rev (dropWhile isspace (rev (dropWhile isspace s)))"

text \<open>\<open>s.replace(c, "")\<close> for a one-character \<open>c\<close>.\<close>

definition remove_char :: "char \<Rightarrow> string \<Rightarrow> string" where
  "remove_char ch s = filter (\<lambda>c. c \<noteq> ch) s"

text \<open>\<open>sep.join(xs)\<close>.\<close>

fun join :: "string \<Rightarrow> string list \<Rightarrow> string" where
  "join sep [] = []"
| "join sep [x] = x"
| "join sep (x # y # ys) = x @ sep @ join sep (y # ys)"

text \<open>\<open>sub in s\<close> for two strings: \<open>sub\<close> occurs in \<open>s\<close> as a contiguous piece.\<close>

fun starts_with :: "string \<Rightarrow> string \<Rightarrow> bool" where
  "starts_with s [] = True"
| "starts_with [] (p # ps) = False"
| "starts_with (c # cs) (p # ps) = (c = p \<and> starts_with cs ps)"

fun str_contains :: "string \<Rightarrow> string \<Rightarrow> bool" where
  "str_contains [] sub = (sub = [])"
| "str_contains (c # cs) sub = (starts_with (c # cs) sub \<or> str_contains cs sub)"

section \<open>Category canonicalisation: \<open>extract_cat\<close>\<close>

text \<open>
  \<^verbatim>\<open>match = re.search(r'\bCAT([1-9]|1[0-2])\b', texto.upper())\<close>

  \<open>word_end rest\<close> is the closing \<open>\b\<close>: the character before it is a digit, so the
  boundary holds at the end of the text or before a character that is not a word character.
\<close>

fun word_end :: "string \<Rightarrow> bool" where
  "word_end [] = True"
| "word_end (c # cs) = (\<not> is_word c)"

text \<open>
  \<open>cat_at s\<close> matches \<open>CAT([1-9]|1[0-2])\b\<close> at the start of \<open>s\<close> and gives group 1.
  The alternatives are tried in the order of the pattern: one digit 1-9 followed by the
  boundary first, and, when that fails, \<open>1\<close> followed by one of 0-2 and the boundary.
\<close>

definition class_1_9 :: "char \<Rightarrow> bool" where
  "class_1_9 d = (d \<in> set ''123456789'')"

definition class_0_2 :: "char \<Rightarrow> bool" where
  "class_0_2 d = (d \<in> set ''012'')"

fun cat_at :: "string \<Rightarrow> string option" where
  "cat_at (c1 # c2 # c3 # d # rest) =
     (if c1 = CHR ''C'' \<and> c2 = CHR ''A'' \<and> c3 = CHR ''T'' then
        (if class_1_9 d \<and> word_end rest then Some [d]
         else if d = CHR ''1'' then
           (case rest of
              [] \<Rightarrow> None
            | e # rest' \<Rightarrow>
                if class_0_2 e \<and> word_end rest' then Some [d, e] else None)
         else None)
      else None)"
| "cat_at s = None"

text \<open>
  \<open>cat_search prev_word s\<close> is \<open>re.search\<close> scanning \<open>s\<close> from the left; \<open>prev_word\<close> says
  whether the character before \<open>s\<close> is a word character (False at the start of the text).
  The opening \<open>\b\<close> stands before the word character \<open>C\<close>, so it holds exactly when the
  previous character is not a word character.
\<close>

fun cat_search :: "bool \<Rightarrow> string \<Rightarrow> string option" where
  "cat_search prev_word [] = None"
| "cat_search prev_word (c # cs) =
     (case (if prev_word then None else cat_at (c # cs)) of
        Some g \<Rightarrow> Some g
      | None \<Rightarrow> cat_search (is_word c) cs)"

definition extract_cat :: "string \<Rightarrow> string" where
  "extract_cat texto =
     (case cat_search False (upper texto) of
        Some g \<Rightarrow> ''CAT'' @ g
      | None \<Rightarrow> texto)"

section \<open>The response extractor\<close>

subsection \<open>Exceptions and parsed JSON\<close>

text \<open>
  The exceptions the modelled code can raise, each with its message (\<open>str(e)\<close>, written
  here without the quotation marks Python puts around a name). \<open>ModelError\<close> stands for any
  exception a model adapter raises from \<open>send_prompt\<close>. \<open>JSONDecodeError\<close>, \<open>ValueError\<close> and
  \<open>RecursionError\<close> are what \<open>json.loads\<close> raises: the first on a text that is not JSON, the
  second on an integer literal longer than the interpreter's limit of digits, the third
  on a text nested deeper than the interpreter's stack.
\<close>

datatype py_exception =
    AttributeError string
  | TypeError string
  | KeyError string
  | UnboundLocalError string
  | ModelError string
  | JSONDecodeError string
  | ValueError string
  | RecursionError string

fun str_exception :: "py_exception \<Rightarrow> string" where
  "str_exception (AttributeError m) = m"
| "str_exception (TypeError m) = m"
| "str_exception (KeyError m) = m"
| "str_exception (UnboundLocalError m) = m"
| "str_exception (ModelError m) = m"
| "str_exception (JSONDecodeError m) = m"
| "str_exception (ValueError m) = m"
| "str_exception (RecursionError m) = m"

text \<open>\<open>except json.JSONDecodeError\<close> catches the exceptions of that class and no other.\<close>

fun is_json_decode_error :: "py_exception \<Rightarrow> bool" where
  "is_json_decode_error (JSONDecodeError m) = True"
| "is_json_decode_error e = False"

text \<open>
  The value \<open>json.loads\<close> returns: \<open>None\<close>, a bool, an int, a float, a str, a list or a
  dict (its items, keys distinct). \<open>json.loads\<close> itself belongs to the standard library;
  the functions below take it as the parameter \<open>loads\<close>, which gives what \<open>json.loads\<close> returns
  (\<open>Inr\<close>) or the exception it raises (\<open>Inl\<close>), whatever its class.
\<close>

datatype json =
    JNull
  | JBool bool
  | JInt int
  | JFloat real
  | JString string
  | JArray "json list"
  | JObject "(string \<times> json) list"

fun type_name :: "json \<Rightarrow> string" where
  "type_name JNull = ''NoneType''"
| "type_name (JBool b) = ''bool''"
| "type_name (JInt i) = ''int''"
| "type_name (JFloat x) = ''float''"
| "type_name (JString s) = ''str''"
| "type_name (JArray xs) = ''list''"
| "type_name (JObject kvs) = ''dict''"

text \<open>\<open>key in dados\<close>: a key of a dict, an element of a list, a piece of a str; any other
  value is not iterable.\<close>

fun py_in :: "string \<Rightarrow> json \<Rightarrow> py_exception + bool" where
  "py_in key (JObject kvs) = Inr (key \<in> set (map fst kvs))"
| "py_in key (JArray xs) = Inr (JString key \<in> set xs)"
| "py_in key (JString s) = Inr (str_contains s key)"
| "py_in key v = Inl (TypeError (''argument of type '' @ type_name v @ '' is not iterable''))"

text \<open>\<open>dados[key]\<close> with a str key.\<close>

fun py_getitem :: "json \<Rightarrow> string \<Rightarrow> py_exception + json" where
  "py_getitem (JObject kvs) key =
     (case map_of kvs key of Some v \<Rightarrow> Inr v | None \<Rightarrow> Inl (KeyError key))"
| "py_getitem (JArray xs) key = Inl (TypeError ''list indices must be integers or slices, not str'')"
| "py_getitem (JString s) key = Inl (TypeError ''string indices must be integers, not str'')"
| "py_getitem v key = Inl (TypeError (type_name v @ '' object is not subscriptable''))"

text \<open>\<open>v.strip()\<close>: only a str has the method.\<close>

fun py_strip :: "json \<Rightarrow> py_exception + string" where
  "py_strip (JString s) = Inr (strip s)"
| "py_strip v = Inl (AttributeError (type_name v @ '' object has no attribute strip''))"

text \<open>The dict \<open>{"Category": ..., "Explanation": ...}\<close> every path of the extractor returns.\<close>

record incident =
  Category :: string
  Explanation :: string

text \<open>
  \<^verbatim>\<open>if "Category" in dados and "Explanation" in dados:
      return {"Category": dados["Category"].strip(),
              "Explanation": dados["Explanation"].strip()}\<close>

  \<open>Inr (Some r)\<close>: the function returns \<open>r\<close>; \<open>Inr None\<close>: the condition is false and
  control goes on to the regular expression; \<open>Inl e\<close>: \<open>e\<close> is raised. Neither
  \<open>except json.JSONDecodeError\<close> of \<open>base_prompt.py\<close> nor \<open>is_valid_json\<close> of
  \<open>security_extractor.py\<close> catches an \<open>AttributeError\<close> or a \<open>TypeError\<close>.
\<close>

definition json_path :: "json \<Rightarrow> py_exception + incident option" where
  "json_path dados =
     (case py_in ''Category'' dados of
        Inl e \<Rightarrow> Inl e
      | Inr False \<Rightarrow> Inr None
      | Inr True \<Rightarrow>
         (case py_in ''Explanation'' dados of
            Inl e \<Rightarrow> Inl e
          | Inr False \<Rightarrow> Inr None
          | Inr True \<Rightarrow>
             (case py_getitem dados ''Category'' of
                Inl e \<Rightarrow> Inl e
              | Inr c \<Rightarrow>
                 (case py_strip c of
                    Inl e \<Rightarrow> Inl e
                  | Inr c' \<Rightarrow>
                     (case py_getitem dados ''Explanation'' of
                        Inl e \<Rightarrow> Inl e
                      | Inr x \<Rightarrow>
                         (case py_strip x of
                            Inl e \<Rightarrow> Inl e
                          | Inr x' \<Rightarrow> Inr (Some \<lparr>Category = c', Explanation = x'\<rparr>)))))))"

subsection \<open>The regular expression\<close>

text \<open>
  \<^verbatim>\<open>padrao = r"(?:\*\*Category:\*\*|Category:)\s*(.*?)\s*(?:\*\*Explanation:\*\*|Explanation:|Explanation:)\s*(.*?)(?=\n|$)"
matches = re.findall(padrao, texto, re.DOTALL)\<close>

  The pattern is a sequence of four kinds of pieces:
  \<^item> \<open>Lits alts\<close>: a group \<open>(?:a|b|...)\<close> of literal alternatives, tried from the left;
  \<^item> \<open>Spaces\<close>: \<open>\s*\<close>, greedy: the longest run first, then shorter ones;
  \<^item> \<open>LazyGroup\<close>: \<open>(.*?)\<close> under \<open>re.DOTALL\<close>, a capturing group of any characters, the
    shortest first;
  \<^item> \<open>LineEnd\<close>: the lookahead \<open>(?=\n|$)\<close>; it consumes nothing.
\<close>

datatype piece = Lits "string list" | Spaces | LazyGroup | LineEnd

text \<open>
  \<open>rmatch ps s\<close> matches the pieces \<open>ps\<close> at the start of \<open>s\<close> as the backtracking matcher
  of \<open>re\<close> does: the first success in the order in which the choices are tried. It gives
  the texts of the capturing groups and the text left after the match. (In the equation
  of \<open>LazyGroup\<close> the inner match always holds the group's own capture first; the last
  case is there for totality.) Without \<open>re.MULTILINE\<close>, \<open>$\<close> holds at the end of the text
  and before a newline that ends the text, and the latter is a case of \<open>\n\<close>.
\<close>

fun choices :: "piece \<Rightarrow> nat" where
  "choices (Lits alts) = Suc (length alts)"
| "choices p = 1"

function rmatch :: "piece list \<Rightarrow> string \<Rightarrow> (string list \<times> string) option" where
  "rmatch [] s = Some ([], s)"
| "rmatch (Lits [] # ps) s = None"
| "rmatch (Lits (a # alts) # ps) s =
     (if starts_with s a then
        (case rmatch ps (drop (length a) s) of
           Some r \<Rightarrow> Some r
         | None \<Rightarrow> rmatch (Lits alts # ps) s)
      else rmatch (Lits alts # ps) s)"
| "rmatch (Spaces # ps) [] = rmatch ps []"
| "rmatch (Spaces # ps) (c # cs) =
     (if isspace c then
        (case rmatch (Spaces # ps) cs of
           Some r \<Rightarrow> Some r
         | None \<Rightarrow> rmatch ps (c # cs))
      else rmatch ps (c # cs))"
| "rmatch (LazyGroup # ps) s =
     (case rmatch ps s of
        Some (caps, rest) \<Rightarrow> Some ([] # caps, rest)
      | None \<Rightarrow>
         (case s of
            [] \<Rightarrow> None
          | c # cs \<Rightarrow>
             (case rmatch (LazyGroup # ps) cs of
                Some (cap # caps, rest) \<Rightarrow> Some ((c # cap) # caps, rest)
              | _ \<Rightarrow> None)))"
| "rmatch (LineEnd # ps) s =
     (if (case s of [] \<Rightarrow> True | c # cs \<Rightarrow> c = CHR 0x0A) then rmatch ps s else None)"
  by pat_completeness auto
termination
  by (relation "measures [\<lambda>(ps, s). sum_list (map choices ps), \<lambda>(ps, s). length s]") auto

text \<open>
  \<open>re.findall\<close>: the matches from the left, each search starting where the previous match
  ended; every match is the list of its groups. A match of the pattern below is never
  empty (it holds \<open>Category:\<close>); for an empty match the search moves on by one character.
\<close>

function findall :: "piece list \<Rightarrow> string \<Rightarrow> string list list" where
  "findall pat s =
     (case rmatch pat s of
        Some (caps, rest) \<Rightarrow>
          caps # (if length rest < length s then findall pat rest
                  else (case s of [] \<Rightarrow> [] | c # cs \<Rightarrow> findall pat cs))
      | None \<Rightarrow> (case s of [] \<Rightarrow> [] | c # cs \<Rightarrow> findall pat cs))"
  by pat_completeness auto
termination
  by (relation "measure (\<lambda>(pat, s). length s)") auto

declare findall.simps [simp del]

definition padrao :: "piece list" where
  "padrao = [Lits [''**Category:**'', ''Category:''], Spaces, LazyGroup, Spaces,
             Lits [''**Explanation:**'', ''Explanation:'', ''Explanation:''], Spaces, LazyGroup,
             LineEnd]"

text \<open>\<^verbatim>\<open>.replace("*", "").replace("\n", "").strip()\<close>\<close>

definition clean :: "string \<Rightarrow> string" where
  "clean s = strip (remove_char (CHR 0x0A) (remove_char (CHR ''*'') s))"

text \<open>
  \<^verbatim>\<open>if matches:
    ultima_ocorrencia = matches[-1]
    return {"Category": extract_cat(ultima_ocorrencia[0]....strip()),
            "Explanation": ultima_ocorrencia[1]....strip()}
else:
    return {"Category": "unknown", "Explanation": "unknown"}\<close>
\<close>

definition regex_path :: "string \<Rightarrow> incident" where
  "regex_path texto =
     (let matches = findall padrao texto in
      if matches \<noteq> [] then
        (let ultima_ocorrencia = last matches in
         \<lparr>Category = extract_cat (clean (ultima_ocorrencia ! 0)),
          Explanation = clean (ultima_ocorrencia ! 1)\<rparr>)
      else \<lparr>Category = ''unknown'', Explanation = ''unknown''\<rparr>)"

text \<open>
  \<open>BasePromptPlugin.extract_security_incidents\<close> (\<open>plugins/prompts/base_prompt.py\<close>):

  \<^verbatim>\<open>try:
    dados = json.loads(texto)
    if "Category" in dados and "Explanation" in dados:
        return {...}
except json.JSONDecodeError:
    pass\<close>

  An exception of \<open>json.loads\<close> that is not a \<open>JSONDecodeError\<close> leaves the function, as an
  exception of the lines after it does.
\<close>

definition extract_security_incidents ::
  "(string \<Rightarrow> py_exception + json) \<Rightarrow> string \<Rightarrow> py_exception + incident" where
  "extract_security_incidents loads texto =
     (case loads texto of
        Inr dados \<Rightarrow>
          (case json_path dados of
             Inl e \<Rightarrow> Inl e
           | Inr (Some r) \<Rightarrow> Inr r
           | Inr None \<Rightarrow> Inr (regex_path texto))
      | Inl e \<Rightarrow>
          (if is_json_decode_error e then Inr (regex_path texto) else Inl e))"

text \<open>
  The function of the same name in \<open>utils/security_extractor.py\<close>, with \<open>is_valid_json\<close>:

  \<^verbatim>\<open>try:
    json.loads(texto)
    return True
except json.JSONDecodeError:
    return False\<close>

  and, in the caller, a second \<open>json.loads(texto)\<close> outside any \<open>try\<close>.
\<close>

definition is_valid_json :: "(string \<Rightarrow> py_exception + json) \<Rightarrow> string \<Rightarrow> py_exception + bool" where
  "is_valid_json loads texto =
     (case loads texto of
        Inr dados \<Rightarrow> Inr True
      | Inl e \<Rightarrow> (if is_json_decode_error e then Inr False else Inl e))"

definition extract_security_incidents_utils ::
  "(string \<Rightarrow> py_exception + json) \<Rightarrow> string \<Rightarrow> py_exception + incident" where
  "extract_security_incidents_utils loads texto =
     (case is_valid_json loads texto of
        Inl e \<Rightarrow> Inl e
      | Inr False \<Rightarrow> Inr (regex_path texto)
      | Inr True \<Rightarrow>
         (case loads texto of
            Inl e \<Rightarrow> Inl e
          | Inr dados \<Rightarrow>
             (case json_path dados of
                Inl e \<Rightarrow> Inl e
              | Inr (Some r) \<Rightarrow> Inr r
              | Inr None \<Rightarrow> Inr (regex_path texto))))"

section \<open>The collaborators of a technique\<close>

text \<open>
  A technique works with three things from outside the repository's code: the parser
  \<open>json.loads\<close>, the package \<open>rouge_score\<close> (absent when its import fails) and the model
  behind \<open>model_plugin.send_prompt\<close>. The model has a state of its own (type \<open>'m\<close>); a call
  gets the prompt, the mode label and the incident id, and returns the response text or
  raises.
\<close>

record 'm collaborators =
  json_loads :: "string \<Rightarrow> py_exception + json"
  rouge_scorer :: "(string \<Rightarrow> string \<Rightarrow> real) option"
  model_send :: "'m \<Rightarrow> string \<Rightarrow> string \<Rightarrow> string \<Rightarrow> (py_exception + string) \<times> 'm"

text \<open>
  The state a technique runs in: the model's state, and the prompts sent so far, oldest
  first. The list of prompts is not a variable of the code; it records the calls of
  \<open>send_prompt\<close>, so that the number and the content of the calls can be stated.
\<close>

record 'm world =
  model_state :: 'm
  sent :: "string list"

definition send_prompt ::
  "'m collaborators \<Rightarrow> string \<Rightarrow> string \<Rightarrow> string \<Rightarrow> 'm world
     \<Rightarrow> (py_exception + string) \<times> 'm world" where
  "send_prompt env prompt mode incident_id w =
     (case model_send env (model_state w) prompt mode incident_id of
        (r, m) \<Rightarrow> (r, \<lparr>model_state = m, sent = sent w @ [prompt]\<rparr>))"

text \<open>
  \<open>calculate_rouge_score\<close>: the F-measure of ROUGE-L from the package, and, when the package
  cannot be imported, 1.0 for two texts equal up to case and 0.0 otherwise. Floats are
  modelled as reals; the code only compares the score with the threshold.
\<close>

definition calculate_rouge_score :: "'m collaborators \<Rightarrow> string \<Rightarrow> string \<Rightarrow> real" where
  "calculate_rouge_score env resposta_anterior nova_resposta =
     (case rouge_scorer env of
        Some scorer \<Rightarrow> scorer resposta_anterior nova_resposta
      | None \<Rightarrow> (if lower resposta_anterior = lower nova_resposta then 1 else 0))"

text \<open>
  A result is the dict the code builds, as the list of its items in the order of the dict
  literal. A row of the input is read only through \<open>coluna in row and pd.notnull(row[coluna])\<close>
  and \<open>row.get('id')\<close>: it is modelled as the map from a column to its value as text, undefined
  where the column is absent or null.
\<close>

datatype pyval = VStr string | VInt int | VFloat real | VBool bool

type_synonym result = "(string \<times> pyval) list"

type_synonym data_row = "string \<rightharpoonup> string"

text \<open>
  The keyword arguments of \<open>execute\<close>: \<open>None\<close> for one that is not passed, so that
  \<open>kwargs.get(name, default)\<close> is \<open>get_or\<close>. The runner always passes \<open>incident_id\<close>.
\<close>

record kwargs =
  kw_max_hints :: "int option"
  kw_max_iter :: "int option"
  kw_limite_rouge :: "real option"
  kw_limite_qualidade :: "real option"
  kw_incident_id :: string

definition get_or :: "'a option \<Rightarrow> 'a \<Rightarrow> 'a" where
  "get_or v fallback = (case v of Some x \<Rightarrow> x | None \<Rightarrow> fallback)"

definition build_incident_info :: "data_row \<Rightarrow> string list \<Rightarrow> string" where
  "build_incident_info row columns =
     join '' / ''
       (map (\<lambda>coluna. case row coluna of
                         Some v \<Rightarrow> coluna @ '': '' @ v
                       | None \<Rightarrow> coluna @ '': [valor ausente]'')
            columns)"

text \<open>The text \<open>output_format\<close>, the same in three techniques.\<close>

definition output_format :: string where
  "output_format =
     ''\<newline>'' @
     ''        If classification is not possible, return:\<newline>'' @
     ''        Category: Unknown\<newline>'' @
     ''        Explanation: Unknown\<newline>'' @
     ''        \<newline>'' @
     ''        OUTPUT:\<newline>'' @
     ''        Category: [NIST code]\<newline>'' @
     ''        Explanation: [Justification for the chosen category]\<newline>'' @
     ''        ''"

text \<open>The table \<open>palavras_chave\<close> and \<open>_get_subcategories\<close>, the same in two techniques.\<close>

definition palavras_chave :: "(string \<times> string list) list" where
  "palavras_chave =
     [
      (''CAT1'', [''phishing'', ''brute force'', ''unauthorized access'', ''compromised password'', ''credential theft'', ''account compromise'', ''token'', ''oauth'', ''ssh'', ''suspicious login'']),
      (''CAT2'', [''malware'', ''ransomware'', ''trojan'', ''virus'', ''spyware'', ''rootkit'', ''infection'', ''malicious code'']),
      (''CAT3'', [''ddos'', ''dos'', ''denial of service'', ''flood'', ''syn flood'', ''udp flood'', ''botnet'', ''api outage'', ''site down'']),
      (''CAT4'', [''data leak'', ''exposed data'', ''leaked credentials'', ''sensitive information'', ''data exfiltration'', ''unauthorized disclosure'']),
      (''CAT5'', [''exploit'', ''vulnerability'', ''cve'', ''remote execution'', ''sql injection'', ''injection'', ''rce'', ''security flaw'']),
      (''CAT6'', [''insider'', ''internal abuse'', ''employee'', ''internal leak'', ''sabotage'', ''intentional action'', ''staff'']),
      (''CAT7'', [''social engineering'', ''phishing'', ''vishing'', ''fraud'', ''deception'', ''spoofing'', ''manipulation'', ''scam'', ''ceo fraud'']),
      (''CAT8'', [''physical access'', ''equipment theft'', ''burglary'', ''unauthorized entry'', ''broken door'', ''physical breach'']),
      (''CAT9'', [''modification'', ''defacement'', ''unauthorized change'', ''erased'', ''altered record'', ''tampering'']),
      (''CAT10'', [''misuse'', ''resource abuse'', ''crypto mining'', ''compromised server'', ''malware hosting'', ''unauthorized use'']),
      (''CAT11'', [''third party'', ''supplier'', ''partner'', ''vendor'', ''supply chain'', ''external breach'', ''saas issue'']),
      (''CAT12'', [''intrusion attempt'', ''scan'', ''reconnaissance'', ''probing'', ''port scan'', ''blocked exploit'', ''failed attempt'']),
      (''UNKNOWN'', [''unknown'', ''unspecified'', ''not categorized'', ''no category'', ''undefined'', ''other''])
     ]"

definition get_subcategories :: "string \<Rightarrow> string list" where
  "get_subcategories categoria =
     (case map_of palavras_chave (upper (strip categoria)) of
        Some keywords \<Rightarrow> keywords
      | None \<Rightarrow> [])"

section \<open>Progressive Hint\<close>

definition hint_result ::
  "string \<Rightarrow> string \<Rightarrow> string \<Rightarrow> string \<Rightarrow> real \<Rightarrow> int \<Rightarrow> result" where
  "hint_result incident_id informacoes categoria explicacao rouge iteracao =
     [(''id'', VStr incident_id),
      (''informacoes_das_colunas'', VStr informacoes),
      (''categoria'', VStr categoria),
      (''explicacao'', VStr explicacao),
      (''rouge'', VFloat rouge),
      (''iteracao'', VInt iteracao)]"

text \<open>
  The loop \<open>for i in range(max_hints)\<close>, from the iteration \<open>i\<close> on. It ends by \<open>break\<close> with
  one result, or, when \<open>range(max_hints)\<close> is exhausted, with the empty \<open>resultados\<close>.
\<close>

function php_loop ::
  "'m collaborators \<Rightarrow> string \<Rightarrow> string \<Rightarrow> string \<Rightarrow> int \<Rightarrow> real \<Rightarrow> nat \<Rightarrow> string \<Rightarrow> 'm world
     \<Rightarrow> (py_exception + result list) \<times> 'm world" where
  "php_loop env full_prompt informacoes incident_id max_hints limite_rouge i resposta_anterior w =
     (if int i < max_hints then
        (case extract_security_incidents (json_loads env) resposta_anterior of
           Inl e \<Rightarrow> (Inl e, w)
         | Inr anterior \<Rightarrow>
            (let categoria_anterior = Category anterior;
                 dica = ''Hint: The category is near: '' @ categoria_anterior;
                 hint_prompt = dica @ '' '' @ full_prompt
             in case send_prompt env hint_prompt ''php'' incident_id w of
                  (Inl e, w') \<Rightarrow> (Inl e, w')
                | (Inr nova_resposta, w') \<Rightarrow>
                   (case extract_security_incidents (json_loads env) nova_resposta of
                      Inl e \<Rightarrow> (Inl e, w')
                    | Inr atual \<Rightarrow>
                       (let categoria_atual = Category atual;
                            rouge_score = calculate_rouge_score env categoria_anterior categoria_atual
                        in if int i + 1 = max_hints \<or> rouge_score \<ge> limite_rouge then
                             (case extract_security_incidents (json_loads env) nova_resposta of
                                Inl e \<Rightarrow> (Inl e, w')
                              | Inr categoria_info \<Rightarrow>
                                 (Inr [hint_result incident_id informacoes (Category categoria_info)
                                         (Explanation categoria_info) rouge_score (int i + 1)], w'))
                           else php_loop env full_prompt informacoes incident_id max_hints
                                  limite_rouge (i + 1) nova_resposta w'))))
      else (Inr [], w))"
  by pat_completeness auto
termination
  by (relation "measure (\<lambda>(env, full_prompt, informacoes, incident_id, max_hints, limite_rouge, i,
         resposta_anterior, w). nat max_hints - i)") auto

declare php_loop.simps [simp del]

definition progressive_hint_execute ::
  "'m collaborators \<Rightarrow> string \<Rightarrow> data_row \<Rightarrow> string list \<Rightarrow> kwargs \<Rightarrow> 'm world
     \<Rightarrow> (py_exception + result list) \<times> 'm world" where
  "progressive_hint_execute env prompt data_row columns kw w =
     (let max_hints = get_or (kw_max_hints kw) 4;
          limite_rouge = get_or (kw_limite_rouge kw) (9 / 10);
          full_prompt = prompt @ '' '' @ output_format;
          incident_id = kw_incident_id kw
      in case send_prompt env full_prompt ''php'' incident_id w of
           (Inl e, w') \<Rightarrow> (Inl e, w')
         | (Inr resposta, w') \<Rightarrow>
            (let informacoes_das_colunas = build_incident_info data_row columns
             in if max_hints = 0 then
                  (case extract_security_incidents (json_loads env) resposta of
                     Inl e \<Rightarrow> (Inl e, w')
                   | Inr categoria_info \<Rightarrow>
                      (Inr [hint_result incident_id informacoes_das_colunas (Category categoria_info)
                              (Explanation categoria_info) 0 0], w'))
                else php_loop env full_prompt informacoes_das_colunas incident_id max_hints
                       limite_rouge 0 resposta w'))"

section \<open>Self Hint\<close>

definition plano :: string where
  "plano =
     ''Let'' @ [CHR 0x27] @
     ''s first understand the problem and devise a plan to solve the problem. Then, let'' @
     [CHR 0x27] @ ''s carry out the plan and solve the problem step by step.''"

text \<open>
  The loop \<open>for i in range(max_iter)\<close>, from the iteration \<open>i\<close> on, with the variables it
  updates: \<open>categoria_anterior\<close> and \<open>plano_intermediario\<close>. When \<open>range(max_iter)\<close> is
  exhausted the function returns \<open>resultados\<close>, still empty.
\<close>

function shp_loop ::
  "'m collaborators \<Rightarrow> string \<Rightarrow> string \<Rightarrow> string \<Rightarrow> int \<Rightarrow> real \<Rightarrow> nat \<Rightarrow> string \<Rightarrow> string
     \<Rightarrow> 'm world \<Rightarrow> (py_exception + result list) \<times> 'm world" where
  "shp_loop env prompt informacoes incident_id max_iter limite_qualidade i categoria_anterior
       plano_intermediario w =
     (if int i < max_iter then
        (let prompt_reflexao = prompt @ '' '' @ plano_intermediario @ '' The category is: ''
               @ categoria_anterior @ '' '' @ output_format
         in case send_prompt env prompt_reflexao ''shp'' incident_id w of
              (Inl e, w') \<Rightarrow> (Inl e, w')
            | (Inr response, w') \<Rightarrow>
               (case extract_security_incidents (json_loads env) response of
                  Inl e \<Rightarrow> (Inl e, w')
                | Inr incident \<Rightarrow>
                   (let categoria_atual = Category incident;
                        rouge_score = calculate_rouge_score env categoria_anterior categoria_atual
                    in if int i + 1 = max_iter \<or> rouge_score \<ge> limite_qualidade then
                         (Inr [hint_result incident_id informacoes categoria_atual
                                 (Explanation incident) rouge_score (int i + 1)], w')
                       else
                         (let prompt_inicial = prompt @ '' '' @ plano @ '' The category is: ''
                                @ categoria_atual
                          in case send_prompt env prompt_inicial ''shp'' incident_id w' of
                               (Inl e, w'') \<Rightarrow> (Inl e, w'')
                             | (Inr plano_novo, w'') \<Rightarrow>
                                shp_loop env prompt informacoes incident_id max_iter
                                  limite_qualidade (i + 1) categoria_atual plano_novo w''))))
      else (Inr [], w))"
  by pat_completeness auto
termination
  by (relation "measure (\<lambda>(env, prompt, informacoes, incident_id, max_iter, limite_qualidade, i,
         categoria_anterior, plano_intermediario, w). nat max_iter - i)") auto

declare shp_loop.simps [simp del]

definition self_hint_execute ::
  "'m collaborators \<Rightarrow> string \<Rightarrow> data_row \<Rightarrow> string list \<Rightarrow> kwargs \<Rightarrow> 'm world
     \<Rightarrow> (py_exception + result list) \<times> 'm world" where
  "self_hint_execute env prompt data_row columns kw w =
     (let max_iter = get_or (kw_max_iter kw) 4;
          limite_qualidade = get_or (kw_limite_qualidade kw) (9 / 10);
          prompt_inicial = prompt @ '' '' @ plano;
          incident_id = kw_incident_id kw
      in case send_prompt env prompt_inicial ''shp'' incident_id w of
           (Inl e, w1) \<Rightarrow> (Inl e, w1)
         | (Inr plano_intermediario, w1) \<Rightarrow>
            (case send_prompt env (prompt_inicial @ '' '' @ output_format) ''shp'' incident_id w1 of
               (Inl e, w2) \<Rightarrow> (Inl e, w2)
             | (Inr response, w2) \<Rightarrow>
                (case extract_security_incidents (json_loads env) response of
                   Inl e \<Rightarrow> (Inl e, w2)
                 | Inr inicial \<Rightarrow>
                    shp_loop env prompt (build_incident_info data_row columns) incident_id max_iter
                      limite_qualidade 0 (Category inicial) plano_intermediario w2)))"

section \<open>Progressive Rectification\<close>

definition build_rectification_prompt :: "string \<Rightarrow> string \<Rightarrow> string" where
  "build_rectification_prompt prompt categoria_rejectada =
     ''\<newline>'' @
     ''        Incident: '' @ prompt @ ''\<newline>'' @
     ''        The answer is probably not: '' @ categoria_rejectada @ ''\<newline>'' @
     ''        Let'' @ [CHR 0x27] @ ''s think step by step to reclassify.\<newline>'' @
     ''        \<newline>'' @
     ''        OUTPUT:\<newline>'' @
     ''        Category: [NIST code]\<newline>'' @
     ''        Explanation: [Justification for the chosen category]\<newline>'' @
     ''        ''"

definition prompt_verification :: "string \<Rightarrow> string \<Rightarrow> string \<Rightarrow> string" where
  "prompt_verification prompt category subcategory =
     prompt @ ''\<newline>'' @
     ''        Incident (masked): '' @ subcategory @ ''\<newline>'' @
     ''        Hypothesis: '' @ category @ ''\<newline>'' @
     ''        Question: What is the value of X in the Incident? (If not applicable, respond '' @
     [CHR 0x27] @ ''Unknown'' @ [CHR 0x27] @ '')\<newline>'' @
     ''        \<newline>'' @
     ''        OUTPUT:\<newline>'' @
     ''        Category: [NIST code]\<newline>'' @
     ''        Explanation: [Justification for the chosen category]\<newline>'' @
     ''        ''"

definition mascarar :: "string \<Rightarrow> string \<Rightarrow> string" where
  "mascarar prompt subcat =
     ''\<newline>'' @
     ''        '' @ prompt @ ''\<newline>'' @
     ''        Replace all occurrences of the word '' @ [CHR 0x27] @ subcat @ [CHR 0x27] @
     '' with '' @ [CHR 0x27] @ ''X'' @ [CHR 0x27] @ '' in a given text. \<newline>'' @
     ''        Ensure that the substitution preserves the original context and sentence structure.\<newline>'' @
     ''        ''"

definition validate_response ::
  "'m collaborators \<Rightarrow> string \<Rightarrow> string \<Rightarrow> string \<Rightarrow> string \<Rightarrow> 'm world
     \<Rightarrow> (py_exception + string) \<times> 'm world" where
  "validate_response env prompt category subcategory incident_id w =
     (case send_prompt env (prompt_verification prompt category subcategory) ''prp'' incident_id w of
        (Inl e, w') \<Rightarrow> (Inl e, w')
      | (Inr response, w') \<Rightarrow>
         (case extract_security_incidents (json_loads env) response of
            Inl e \<Rightarrow> (Inl e, w')
          | Inr incident \<Rightarrow> (Inr (Category incident), w')))"

definition mask_prompt ::
  "'m collaborators \<Rightarrow> string \<Rightarrow> string \<Rightarrow> string \<Rightarrow> 'm world
     \<Rightarrow> (py_exception + string) \<times> 'm world" where
  "mask_prompt env prompt subcat incident_id w =
     send_prompt env (mascarar prompt subcat) ''prp'' incident_id w"

definition rectification_result ::
  "string \<Rightarrow> string \<Rightarrow> string \<Rightarrow> string \<Rightarrow> real \<Rightarrow> int \<Rightarrow> result" where
  "rectification_result incident_id informacoes categoria explicacao qualidade iteracao =
     [(''id'', VStr incident_id),
      (''informacoes_das_colunas'', VStr informacoes),
      (''categoria'', VStr categoria),
      (''explicacao'', VStr explicacao),
      (''qualidade'', VFloat qualidade),
      (''iteracao'', VInt iteracao)]"

text \<open>
  How the inner loop \<open>for subcat in subcategory\<close> ends: by the \<open>return\<close> in its body, or by
  running through the list, with the values of \<open>categoria_atual\<close> and \<open>categoria_rejectada\<close>
  it leaves.
\<close>

datatype for_exit = Returned "result list" | Exhausted string string

fun prp_for ::
  "'m collaborators \<Rightarrow> string \<Rightarrow> string \<Rightarrow> string \<Rightarrow> real \<Rightarrow> string \<Rightarrow> nat \<Rightarrow> string list
     \<Rightarrow> string \<Rightarrow> string \<Rightarrow> 'm world \<Rightarrow> (py_exception + for_exit) \<times> 'm world" where
  "prp_for env prompt informacoes incident_id limite_qualidade explicacao attempt []
       categoria_atual categoria_rejectada w =
     (Inr (Exhausted categoria_atual categoria_rejectada), w)"
| "prp_for env prompt informacoes incident_id limite_qualidade explicacao attempt (subcat # subcategory)
       categoria_atual categoria_rejectada w =
     (let categoria_anterior = categoria_atual
      in case mask_prompt env prompt subcat incident_id w of
           (Inl e, w1) \<Rightarrow> (Inl e, w1)
         | (Inr incidente_mascarado, w1) \<Rightarrow>
            (case validate_response env incidente_mascarado categoria_atual subcat incident_id w1 of
               (Inl e, w2) \<Rightarrow> (Inl e, w2)
             | (Inr categoria_validada, w2) \<Rightarrow>
                (let qualidade = calculate_rouge_score env categoria_anterior categoria_validada
                 in if qualidade \<ge> limite_qualidade then
                      (Inr (Returned [rectification_result incident_id informacoes categoria_validada
                                        explicacao qualidade (int attempt + 1)]), w2)
                    else
                      (let rejeitada = '','' @ categoria_validada;
                           rectification_prompt = build_rectification_prompt prompt rejeitada
                       in case send_prompt env rectification_prompt ''prp'' incident_id w2 of
                            (Inl e, w3) \<Rightarrow> (Inl e, w3)
                          | (Inr response, w3) \<Rightarrow>
                             (case extract_security_incidents (json_loads env) response of
                                Inl e \<Rightarrow> (Inl e, w3)
                              | Inr incident \<Rightarrow>
                                 prp_for env prompt informacoes incident_id limite_qualidade
                                   explicacao attempt subcategory (Category incident) rejeitada w3)))))"

text \<open>The loop \<open>while attempt < max_iter\<close> and the result after it.\<close>

function prp_while ::
  "'m collaborators \<Rightarrow> string \<Rightarrow> string \<Rightarrow> string \<Rightarrow> int \<Rightarrow> real \<Rightarrow> string \<Rightarrow> nat
     \<Rightarrow> string \<Rightarrow> string \<Rightarrow> 'm world \<Rightarrow> (py_exception + result list) \<times> 'm world" where
  "prp_while env prompt informacoes incident_id max_iter limite_qualidade explicacao attempt
       categoria_atual categoria_rejectada w =
     (if int attempt < max_iter then
        (case prp_for env prompt informacoes incident_id limite_qualidade explicacao attempt
                (get_subcategories categoria_atual) categoria_atual categoria_rejectada w of
           (Inl e, w') \<Rightarrow> (Inl e, w')
         | (Inr (Returned resultados), w') \<Rightarrow> (Inr resultados, w')
         | (Inr (Exhausted categoria rejeitada), w') \<Rightarrow>
            prp_while env prompt informacoes incident_id max_iter limite_qualidade explicacao
              (attempt + 1) categoria rejeitada w')
      else
        (Inr [rectification_result incident_id informacoes categoria_atual explicacao 0 max_iter], w))"
  by pat_completeness auto
termination
  by (relation "measure (\<lambda>(env, prompt, informacoes, incident_id, max_iter, limite_qualidade,
         explicacao, attempt, categoria_atual, categoria_rejectada, w). nat max_iter - attempt)") auto

declare prp_while.simps [simp del]

definition progressive_rectification_execute ::
  "'m collaborators \<Rightarrow> string \<Rightarrow> data_row \<Rightarrow> string list \<Rightarrow> kwargs \<Rightarrow> 'm world
     \<Rightarrow> (py_exception + result list) \<times> 'm world" where
  "progressive_rectification_execute env prompt data_row columns kw w =
     (let max_iter = get_or (kw_max_iter kw) 4;
          limite_qualidade = get_or (kw_limite_qualidade kw) (9 / 10);
          informacoes_das_colunas = build_incident_info data_row columns;
          incident_id = kw_incident_id kw
      in case send_prompt env (prompt @ '' '' @ output_format) ''prp'' incident_id w of
           (Inl e, w') \<Rightarrow> (Inl e, w')
         | (Inr r_0, w') \<Rightarrow>
            (case extract_security_incidents (json_loads env) r_0 of
               Inl e \<Rightarrow> (Inl e, w')
             | Inr a_0 \<Rightarrow>
                prp_while env prompt informacoes_das_colunas incident_id max_iter limite_qualidade
                  (Explanation a_0) 0 (Category a_0) [] w'))"

section \<open>Hypothesis Testing\<close>

text \<open>\<open>str(n)\<close> for a natural number, and \<open>categories = [f"CAT{i}" for i in range(1, 13)]\<close>.\<close>

definition digit_char :: "nat \<Rightarrow> char" where
  "digit_char d = ''0123456789'' ! d"

function str_nat :: "nat \<Rightarrow> string" where
  "str_nat n = (if n < 10 then [digit_char n] else str_nat (n div 10) @ [digit_char (n mod 10)])"
  by pat_completeness auto
termination
  by (relation "measure (\<lambda>n. n)") auto

declare str_nat.simps [simp del]

definition categories :: "string list" where
  "categories = map (\<lambda>i. ''CAT'' @ str_nat i) [1..<13]"

definition prompt_llm :: "string \<Rightarrow> string \<Rightarrow> string \<Rightarrow> string" where
  "prompt_llm prompt category keywords_str =
     ''\<newline>'' @
     ''            Security Incident Analysis System - HTP\<newline>'' @
     ''\<newline>'' @
     ''            Incident Description:\<newline>'' @
     ''            '' @ [CHR 0x22] @ prompt @ [CHR 0x22] @ ''\<newline>'' @
     ''\<newline>'' @
     ''            Instructions:\<newline>'' @
     ''            For NIST category Considered tha Category: '' @ category @
     '' and keyword: '' @ keywords_str @ '' perform the following steps:\<newline>'' @
     ''\<newline>'' @
     ''            1. True Hypothesis:\<newline>'' @
     ''               - Assume the incident belongs to this category. Justify based on the description and keywords.\<newline>'' @
     ''               - Indicate whether the hypothesis is SUPPORTED or NOT SUPPORTED.\<newline>'' @
     ''\<newline>'' @
     ''            2. False Hypothesis:\<newline>'' @
     ''               - Assume the incident does NOT belong to this category. Justify based on the lack of evidence.\<newline>'' @
     ''               - Indicate whether the hypothesis is SUPPORTED or NOT SUPPORTED.\<newline>'' @
     ''            \<newline>'' @
     ''            Return the hypotheses in the following format:\<newline>'' @
     ''                True Hypothesis:[SUPPORTED/NOT SUPPORTED] \<newline>'' @
     ''                False Hypothesis:[SUPPORTED/NOT SUPPORTED]\<newline>'' @
     ''            \<newline>'' @
     ''            Final Classification Decision:\<newline>'' @
     ''              - If the True Hypothesis is SUPPORTED and the False Hypothesis is NOT SUPPORTED, return:\<newline>'' @
     ''                Category: same '' @ category @ ''\<newline>'' @
     ''                Explanation: [Justification for the chosen same considered '' @
     category @ '']\<newline>'' @
     ''              - Otherwise, return '' @ [CHR 0x22] @ ''UNKNOWN'' @ [CHR 0x22] @
     '' as the final classification.\<newline>'' @
     ''                Category: UNKNOWN\<newline>'' @
     ''                Explanation: UNKNOWN    \<newline>'' @
     ''            ''"

definition hypothesis_result ::
  "string \<Rightarrow> string \<Rightarrow> string \<Rightarrow> string \<Rightarrow> string \<Rightarrow> real \<Rightarrow> int \<Rightarrow> result" where
  "hypothesis_result incident_id informacoes categoria explicacao categoria_testada rouge iteracao =
     [(''id'', VStr incident_id),
      (''informacoes_das_colunas'', VStr informacoes),
      (''categoria'', VStr categoria),
      (''explicacao'', VStr explicacao),
      (''categoria_testada'', VStr categoria_testada),
      (''rouge'', VFloat rouge),
      (''iteracao'', VInt iteracao)]"

definition nenhuma_categoria :: string where
  "nenhuma_categoria =
     ''Nenhuma categoria foi confirmada atrav'' @ [CHR 0xE9] @ ''s do teste de hip'' @
     [CHR 0xF3] @ ''teses''"

text \<open>
  The prompt sent for the category of index \<open>i\<close> (from 0).
\<close>

definition htp_prompt :: "string \<Rightarrow> nat \<Rightarrow> string" where
  "htp_prompt prompt i =
     (let category = categories ! i;
          keywords = get_subcategories category;
          keywords_str = join '', '' keywords
      in prompt_llm prompt category keywords_str)"

text \<open>
  The loop \<open>while i < len(categories) and i < max_iter\<close>, from \<open>i\<close> on, and the result after
  it. The variable \<open>incident_id\<close> is assigned in the body of the loop only: it is \<open>None\<close> here
  until the body has run, and reading it then raises \<open>UnboundLocalError\<close>.
\<close>

function htp_while ::
  "'m collaborators \<Rightarrow> string \<Rightarrow> string \<Rightarrow> kwargs \<Rightarrow> int \<Rightarrow> real \<Rightarrow> nat \<Rightarrow> string option
     \<Rightarrow> 'm world \<Rightarrow> (py_exception + result list) \<times> 'm world" where
  "htp_while env prompt incident kw max_iter limite_qualidade i incident_id w =
     (if i < length categories \<and> int i < max_iter then
        (let category = categories ! i;
             ident = kw_incident_id kw
         in case send_prompt env (htp_prompt prompt i) ''htp'' ident w of
              (Inl e, w') \<Rightarrow> (Inl e, w')
            | (Inr hipoteses, w') \<Rightarrow>
               (case extract_security_incidents (json_loads env) hipoteses of
                  Inl e \<Rightarrow> (Inl e, w')
                | Inr incident_info \<Rightarrow>
                   (let result_cat = Category incident_info;
                        rouge_score = calculate_rouge_score env result_cat category
                    in if rouge_score \<ge> limite_qualidade then
                         (Inr [hypothesis_result ident incident result_cat (Explanation incident_info)
                                 category rouge_score (int i + 1)], w')
                       else htp_while env prompt incident kw max_iter limite_qualidade (i + 1)
                              (Some ident) w')))
      else
        (case incident_id of
           None \<Rightarrow>
             (Inl (UnboundLocalError
                ''cannot access local variable incident_id where it is not associated with a value''), w)
         | Some ident \<Rightarrow>
             (Inr [hypothesis_result ident incident ''UNKNOWN'' nenhuma_categoria ''ALL'' 0 max_iter], w)))"
  by pat_completeness auto
termination
  by (relation "measure (\<lambda>(env, prompt, incident, kw, max_iter, limite_qualidade, i, incident_id, w).
         length categories - i)") auto

declare htp_while.simps [simp del]

definition hypothesis_testing_execute ::
  "'m collaborators \<Rightarrow> string \<Rightarrow> data_row \<Rightarrow> string list \<Rightarrow> kwargs \<Rightarrow> 'm world
     \<Rightarrow> (py_exception + result list) \<times> 'm world" where
  "hypothesis_testing_execute env prompt data_row columns kw w =
     (let max_iter = get_or (kw_max_iter kw) 12;
          limite_qualidade = get_or (kw_limite_qualidade kw) (9 / 10);
          incident = build_incident_info data_row columns
      in htp_while env prompt incident kw max_iter limite_qualidade 0 None w)"

section \<open>The runner: \<open>_process_all_incidents\<close>\<close>

text \<open>
  The text of \<open>_get_nist_prompt_section\<close> holds characters outside the range of the model;
  it is a parameter, with the switch \<open>nist_categories.enabled\<close> of the configuration.
\<close>

record framework_config =
  nist_enabled :: bool
  nist_prompt_section :: string

definition build_prompt :: "framework_config \<Rightarrow> data_row \<Rightarrow> string list \<Rightarrow> string" where
  "build_prompt config row columns =
     (
     ''\<newline>'' @
     ''        You are a security expert.\<newline>'' @
     ''        Categorize the following incident description into a Category and an Explanation.\<newline>'' @
     ''\<newline>'' @
     ''        Description:\<newline>'' @
     ''            ```'')
     @ concat (map (\<lambda>coluna. case row coluna of
                                 Some v \<Rightarrow> '' ['' @ coluna @ '']: ['' @ v @ '']''
                               | None \<Rightarrow> [])
                   columns)
     @ (
     ''\<newline>'' @
     ''            ```'')
     @ (if nist_enabled config then nist_prompt_section config else [])"

text \<open>
  \<open>params = prompt_config.get("default_params", {}); params.update(kwargs)\<close>: a keyword
  argument that is passed replaces the default of the configuration.
\<close>

definition update_params :: "kwargs \<Rightarrow> kwargs \<Rightarrow> kwargs" where
  "update_params params kw =
     \<lparr>kw_max_hints = (case kw_max_hints kw of Some v \<Rightarrow> Some v | None \<Rightarrow> kw_max_hints params),
      kw_max_iter = (case kw_max_iter kw of Some v \<Rightarrow> Some v | None \<Rightarrow> kw_max_iter params),
      kw_limite_rouge = (case kw_limite_rouge kw of Some v \<Rightarrow> Some v | None \<Rightarrow> kw_limite_rouge params),
      kw_limite_qualidade =
        (case kw_limite_qualidade kw of Some v \<Rightarrow> Some v | None \<Rightarrow> kw_limite_qualidade params),
      kw_incident_id = kw_incident_id kw\<rparr>"

text \<open>
  \<^verbatim>\<open>for result in incident_results:
    if 'id' not in result:
        result['id'] = incident_id\<close>
\<close>

definition ensure_id :: "string \<Rightarrow> result \<Rightarrow> result" where
  "ensure_id incident_id result =
     (if ''id'' \<in> set (map fst result) then result else result @ [(''id'', VStr incident_id)])"

definition error_result :: "string \<Rightarrow> string \<Rightarrow> py_exception \<Rightarrow> result" where
  "error_result incident_id informacoes e =
     [(''id'', VStr incident_id),
      (''informacoes_das_colunas'', VStr informacoes),
      (''categoria'', VStr ''ERROR''),
      (''explicacao'', VStr (''Erro no processamento: '' @ str_exception e)),
      (''erro'', VBool True)]"

text \<open>
  One turn of the loop over the rows: \<open>index\<close> is the row's label as text, \<open>prompt_instance\<close> the
  technique's \<open>execute\<close>. The results of the turn are what it adds to \<open>results\<close>.
\<close>

definition process_row ::
  "framework_config \<Rightarrow> (string \<Rightarrow> data_row \<Rightarrow> string list \<Rightarrow> kwargs \<Rightarrow> 'w \<Rightarrow> (py_exception + result list) \<times> 'w)
     \<Rightarrow> string list \<Rightarrow> kwargs \<Rightarrow> string \<times> data_row \<Rightarrow> 'w \<Rightarrow> result list \<times> 'w" where
  "process_row config prompt_instance columns params indexed_row w =
     (case indexed_row of (index, row) \<Rightarrow>
        (let incident_id = (case row ''id'' of Some v \<Rightarrow> v | None \<Rightarrow> ''row_'' @ index);
             prompt = build_prompt config row columns
         in case prompt_instance prompt row columns (params\<lparr>kw_incident_id := incident_id\<rparr>) w of
              (Inr incident_results, w') \<Rightarrow> (map (ensure_id incident_id) incident_results, w')
            | (Inl e, w') \<Rightarrow>
                ([error_result incident_id (build_incident_info row columns) e], w')))"

fun process_rows ::
  "framework_config \<Rightarrow> (string \<Rightarrow> data_row \<Rightarrow> string list \<Rightarrow> kwargs \<Rightarrow> 'w \<Rightarrow> (py_exception + result list) \<times> 'w)
     \<Rightarrow> string list \<Rightarrow> kwargs \<Rightarrow> (string \<times> data_row) list \<Rightarrow> result list \<Rightarrow> 'w
     \<Rightarrow> result list \<times> 'w" where
  "process_rows config prompt_instance columns params [] results w = (results, w)"
| "process_rows config prompt_instance columns params (indexed_row # rows) results w =
     (case process_row config prompt_instance columns params indexed_row w of
        (added, w') \<Rightarrow>
          process_rows config prompt_instance columns params rows (results @ added) w')"

definition process_all_incidents ::
  "framework_config \<Rightarrow> (string \<Rightarrow> data_row \<Rightarrow> string list \<Rightarrow> kwargs \<Rightarrow> 'w \<Rightarrow> (py_exception + result list) \<times> 'w)
     \<Rightarrow> (string \<times> data_row) list list \<Rightarrow> string list \<Rightarrow> kwargs \<Rightarrow> kwargs \<Rightarrow> 'w
     \<Rightarrow> result list \<times> 'w" where
  "process_all_incidents config prompt_instance dataframes columns default_params kw w =
     process_rows config prompt_instance columns (update_params default_params kw)
       (concat dataframes) [] w"

section \<open>The canonicalisation as the specification words it\<close>

text \<open>
  The numbers 1 through 12 as they are written, and "the text contains, case-insensitively,
  the whole word \<open>CAT\<close> immediately followed by the number \<open>g\<close>": the upper-cased text
  holds \<open>CAT\<close> and \<open>g\<close> with no word character right before or right after them.
\<close>

definition cat_numbers :: "string list" where
  "cat_numbers = map (\<lambda>d. [d]) ''123456789'' @ [''10'', ''11'', ''12'']"

definition has_cat_word :: "string \<Rightarrow> string \<Rightarrow> bool" where
  "has_cat_word texto g =
     (\<exists>pre post. upper texto = pre @ ''CAT'' @ g @ post
        \<and> (pre = [] \<or> \<not> is_word (last pre)) \<and> (post = [] \<or> \<not> is_word (hd post)))"


section \<open>The responses of the model to a sequence of prompts\<close>

text \<open>
  \<open>feed env prompts mode incident_id w\<close> sends the prompts one after the other, from the state
  \<open>w\<close>, and gives what each call returned and the state after the last one. It serves to
  state what a technique does with the responses the model gives to the prompts it sends.
\<close>

fun feed ::
  "'m collaborators \<Rightarrow> string list \<Rightarrow> string \<Rightarrow> string \<Rightarrow> 'm world
     \<Rightarrow> (py_exception + string) list \<times> 'm world" where
  "feed env [] mode incident_id w = ([], w)"
| "feed env (p # ps) mode incident_id w =
     (case send_prompt env p mode incident_id w of
        (r, w') \<Rightarrow>
          (case feed env ps mode incident_id w' of
             (rs, w'') \<Rightarrow> (r # rs, w'')))"

section \<open>Collaborators for the examples\<close>

text \<open>
  The examples below run the techniques with a model that answers from a script: its state
  is the list of the responses still to give, and it raises when the list is empty. The
  package \<open>rouge_score\<close> is absent, so the score is the comparison up to case that
  \<open>calculate_rouge_score\<close> falls back to.
\<close>

fun scripted :: "string list \<Rightarrow> string \<Rightarrow> string \<Rightarrow> string \<Rightarrow> (py_exception + string) \<times> string list" where
  "scripted [] prompt mode incident_id = (Inl (ModelError ''no response left''), [])"
| "scripted (r # rs) prompt mode incident_id = (Inr r, rs)"

text \<open>
  What \<open>json.loads\<close> does on the texts of the examples. It returns the value of each of the
  JSON texts of the table. It raises \<open>ValueError\<close> on a text that is an integer literal of
  more than 4300 digits, followed by a newline or nothing (the default limit of the
  interpreter, from Python 3.11 on). Every other text of the examples starts with the letter
  \<open>C\<close>, which begins no JSON value, and \<open>json.loads\<close> raises \<open>JSONDecodeError\<close> on it; the
  function gives this answer outside the table, and stands for \<open>json.loads\<close> on the texts
  named here only. The messages are abridged.
\<close>

definition too_many_digits :: "string \<Rightarrow> bool" where
  "too_many_digits texto =
     ((case texto of [] \<Rightarrow> False | c # cs \<Rightarrow> class_1_9 c)
      \<and> 4300 < length (takeWhile isdigit texto)
      \<and> (case dropWhile isdigit texto of [] \<Rightarrow> True | c # cs \<Rightarrow> c = CHR 0x0A))"

definition json_loads_examples :: "string \<Rightarrow> py_exception + json" where
  \<open>json_loads_examples texto =
     (if too_many_digits texto then
        Inl (ValueError ''Exceeds the limit (4300 digits) for integer string conversion'')
      else
        (case map_of
           [(''{"Category": 1, "Explanation": "x"}'',
               JObject [(''Category'', JInt 1), (''Explanation'', JString ''x'')]),
            (''{"Category": "CAT2", "Explanation": null}'',
               JObject [(''Category'', JString ''CAT2''), (''Explanation'', JNull)]),
            (''"Category and Explanation"'', JString ''Category and Explanation''),
            (''5'', JInt 5),
            (''{"Category": " cat2 (likely) ", "Explanation": "ransomware found  "}'',
               JObject [(''Category'', JString '' cat2 (likely) ''),
                        (''Explanation'', JString ''ransomware found  '')]),
            (''{"Category":"CAT2","Explanation":"ransomware found"}'',
               JObject [(''Category'', JString ''CAT2''),
                        (''Explanation'', JString ''ransomware found'')])]
           texto of
           Some v \<Rightarrow> Inr v
         | None \<Rightarrow> Inl (JSONDecodeError ''Expecting value'')))\<close>

text \<open>A text that is not JSON and holds two blocks after an integer literal of 5000 digits.\<close>

definition long_number_text :: string where
  "long_number_text =
     replicate 5000 (CHR ''1'')
       @ ''\<newline>Category: CAT1\<newline>Explanation: first\<newline>Category: CAT2\<newline>Explanation: second''"

definition example_env :: "string list collaborators" where
  "example_env = \<lparr>json_loads = json_loads_examples, rouge_scorer = None, model_send = scripted\<rparr>"

definition example_kwargs :: kwargs where
  "example_kwargs = \<lparr>kw_max_hints = None, kw_max_iter = None, kw_limite_rouge = None,
                      kw_limite_qualidade = None, kw_incident_id = ''INC-1''\<rparr>"

definition example_row :: data_row where
  "example_row = [''id'' \<mapsto> ''INC-1'', ''descricao'' \<mapsto> ''server encrypted'']"

definition start :: "string list \<Rightarrow> string list world" where
  "start responses = \<lparr>model_state = responses, sent = []\<rparr>"

text \<open>
  A model whose third call raises, for a batch of five rows; its state counts the calls.
\<close>

fun failing_third :: "nat \<Rightarrow> string \<Rightarrow> string \<Rightarrow> string \<Rightarrow> (py_exception + string) \<times> nat" where
  "failing_third n prompt mode incident_id =
     (if n = 2 then Inl (ModelError ''connection refused'')
      else Inr ''Category: CAT2\<newline>Explanation: malware'',
      Suc n)"

definition failing_env :: "nat collaborators" where
  "failing_env = \<lparr>json_loads = json_loads_examples, rouge_scorer = None, model_send = failing_third\<rparr>"

definition example_config :: framework_config where
  "example_config = \<lparr>nist_enabled = False, nist_prompt_section = []\<rparr>"

definition numbered_row :: "string \<Rightarrow> string \<times> data_row" where
  "numbered_row n = (n, [''id'' \<mapsto> ''INC-'' @ n, ''descricao'' \<mapsto> ''event '' @ n])"

section \<open>Evaluating the text functions\<close>

text \<open>The definitions the simplifier unfolds to run the extractor on a given text.\<close>

lemmas text_eval =
  extract_security_incidents_def json_loads_examples_def too_many_digits_def regex_path_def
  padrao_def isspace_def
  clean_def strip_def remove_char_def extract_cat_def upper_def upper_char_def between_def
  is_word_def isdigit_def class_1_9_def class_0_2_def findall.simps

section \<open>Canonicalisation of the category\<close>

lemma word_end_iff: "word_end post \<longleftrightarrow> (post = [] \<or> \<not> is_word (hd post))"
  by (cases post) simp_all

lemma one_digit: "class_1_9 d \<Longrightarrow> [d] \<in> set cat_numbers"
  unfolding class_1_9_def cat_numbers_def by auto

lemma two_digits: "class_0_2 e \<Longrightarrow> [CHR ''1'', e] \<in> set cat_numbers"
  unfolding class_0_2_def cat_numbers_def by auto

lemma cat_at_sound:
  assumes "cat_at s = Some g"
  shows "g \<in> set cat_numbers \<and> (\<exists>post. s = ''CAT'' @ g @ post \<and> word_end post)"
proof (cases s rule: cat_at.cases)
  case (1 c1 c2 c3 d rest)
  with assms have cat: "c1 = CHR ''C''" "c2 = CHR ''A''" "c3 = CHR ''T''"
    by (simp_all split: if_split_asm)
  show ?thesis
  proof (cases "class_1_9 d \<and> word_end rest")
    case True
    with assms 1 cat have "g = [d]" by simp
    with True 1 cat show ?thesis by (simp add: one_digit)
  next
    case False
    with assms 1 cat obtain e rest' where
      d: "d = CHR ''1''" and r: "rest = e # rest'" and e: "class_0_2 e" "word_end rest'"
      and g: "g = [d, e]"
      by (cases rest) (auto split: if_split_asm)
    show ?thesis using 1 cat d r e g by (simp add: two_digits)
  qed
qed (use assms in simp_all)


lemma cat_numbers_cases:
  assumes "g \<in> set cat_numbers"
  shows "(\<exists>d. g = [d] \<and> class_1_9 d) \<or> (\<exists>e. g = [CHR ''1'', e] \<and> class_0_2 e)"
proof -
  from assms have "g = ''1'' \<or> g = ''2'' \<or> g = ''3'' \<or> g = ''4'' \<or> g = ''5'' \<or> g = ''6''
      \<or> g = ''7'' \<or> g = ''8'' \<or> g = ''9'' \<or> g = ''10'' \<or> g = ''11'' \<or> g = ''12''"
    by (simp add: cat_numbers_def)
  then show ?thesis
    by (elim disjE) (simp_all add: class_1_9_def class_0_2_def)
qed

lemma class_0_2_word:
  assumes "class_0_2 e"
  shows "is_word e"
proof -
  from assms have "e = CHR ''0'' \<or> e = CHR ''1'' \<or> e = CHR ''2''"
    by (simp add: class_0_2_def)
  then have "isdigit e"
    by (elim disjE) (simp_all add: isdigit_def between_def)
  then show ?thesis by (simp add: is_word_def)
qed

lemma cat_at_complete:
  assumes "g \<in> set cat_numbers" and "word_end post"
  shows "cat_at (''CAT'' @ g @ post) = Some g"
  using cat_numbers_cases [OF assms(1)]
proof (elim disjE exE conjE)
  fix d assume "g = [d]" "class_1_9 d"
  with assms(2) show ?thesis by simp
next
  fix e assume "g = [CHR ''1'', e]" "class_0_2 e"
  with assms(2) show ?thesis by (simp add: class_0_2_word)
qed

lemma cat_search_sound:
  "cat_search pw u = Some g \<Longrightarrow>
     g \<in> set cat_numbers \<and>
     (\<exists>pre post. u = pre @ ''CAT'' @ g @ post
        \<and> (if pre = [] then \<not> pw else \<not> is_word (last pre)) \<and> word_end post)"
proof (induction u arbitrary: pw)
  case Nil
  then show ?case by simp
next
  case (Cons c cs)
  show ?case
  proof (cases "(if pw then None else cat_at (c # cs))")
    case (Some g')
    with Cons.prems have g: "g' = g" by simp
    from Some have npw: "\<not> pw" and at: "cat_at (c # cs) = Some g" unfolding g by (auto split: if_splits)
    from cat_at_sound [OF at] obtain post where
      "g \<in> set cat_numbers" "c # cs = ''CAT'' @ g @ post" "word_end post" by blast
    then have "c # cs = [] @ ''CAT'' @ g @ post \<and> (if ([]::string) = [] then \<not> pw else \<not> is_word (last [])) \<and> word_end post"
      using npw by simp
    then show ?thesis using \<open>g \<in> set cat_numbers\<close> by blast
  next
    case None
    with Cons.prems have "cat_search (is_word c) cs = Some g" by simp
    from Cons.IH [OF this] obtain pre post where
      g: "g \<in> set cat_numbers" and eq: "cs = pre @ ''CAT'' @ g @ post"
      and b: "if pre = [] then \<not> is_word c else \<not> is_word (last pre)" and e: "word_end post"
      by blast
    have "c # cs = (c # pre) @ ''CAT'' @ g @ post" using eq by simp
    moreover have "if c # pre = [] then \<not> pw else \<not> is_word (last (c # pre))"
      using b by (auto split: if_splits)
    ultimately show ?thesis using g e by blast
  qed
qed

lemma cat_search_complete:
  "g \<in> set cat_numbers \<Longrightarrow> word_end post \<Longrightarrow>
   (if pre = [] then \<not> pw else \<not> is_word (last pre)) \<Longrightarrow>
   cat_search pw (pre @ ''CAT'' @ g @ post) \<noteq> None"
proof (induction pre arbitrary: pw)
  case Nil
  from Nil have at: "cat_at (''CAT'' @ g @ post) = Some g" by (intro cat_at_complete)
  from Nil have "\<not> pw" by simp
  then have "cat_search pw (''CAT'' @ g @ post) = Some g"
    using at by (simp del: cat_at.simps)
  then show ?case by simp
next
  case (Cons c pre)
  have b: "if pre = [] then \<not> is_word c else \<not> is_word (last pre)"
    using Cons.prems(3) by (auto split: if_splits)
  from Cons.IH [OF Cons.prems(1,2) b]
  have "cat_search (is_word c) (pre @ ''CAT'' @ g @ post) \<noteq> None" .
  then show ?case by (auto split: option.splits)
qed

lemma has_cat_word_search:
  "(\<exists>g \<in> set cat_numbers. has_cat_word texto g) \<longleftrightarrow> cat_search False (upper texto) \<noteq> None"
proof
  assume "\<exists>g \<in> set cat_numbers. has_cat_word texto g"
  then obtain g pre post where g: "g \<in> set cat_numbers"
    and eq: "upper texto = pre @ ''CAT'' @ g @ post"
    and b: "pre = [] \<or> \<not> is_word (last pre)" and e: "post = [] \<or> \<not> is_word (hd post)"
    unfolding has_cat_word_def by blast
  show "cat_search False (upper texto) \<noteq> None"
    unfolding eq using g b e by (intro cat_search_complete) (auto simp: word_end_iff)
next
  assume "cat_search False (upper texto) \<noteq> None"
  then obtain g where s: "cat_search False (upper texto) = Some g" by blast
  from cat_search_sound [OF s] obtain pre post where
    "g \<in> set cat_numbers" "upper texto = pre @ ''CAT'' @ g @ post"
    "if pre = [] then \<not> False else \<not> is_word (last pre)" "word_end post" by blast
  then have "g \<in> set cat_numbers \<and> has_cat_word texto g"
    unfolding has_cat_word_def by (auto simp: word_end_iff split: if_splits)
  then show "\<exists>g \<in> set cat_numbers. has_cat_word texto g" by blast
qed

text \<open>
  Claim C7. For every captured category string, \<open>extract_cat\<close> (and \<open>_extract_cat\<close>, the same
  statements) returns \<open>CAT\<close> followed by a number 1 through 12 that the text holds as a
  whole word after \<open>CAT\<close>, case-insensitively, whenever the text holds such a word, and
  returns the text unchanged otherwise.
\<close>

theorem extract_cat_canonical:
  "((\<exists>g \<in> set cat_numbers. has_cat_word texto g) \<longrightarrow>
      (\<exists>g \<in> set cat_numbers. has_cat_word texto g \<and> extract_cat texto = ''CAT'' @ g))
   \<and> (\<not> (\<exists>g \<in> set cat_numbers. has_cat_word texto g) \<longrightarrow> extract_cat texto = texto)"
proof (intro conjI impI)
  assume "\<exists>g \<in> set cat_numbers. has_cat_word texto g"
  then obtain g pre post where g: "g \<in> set cat_numbers"
    and eq: "upper texto = pre @ ''CAT'' @ g @ post"
    and b: "pre = [] \<or> \<not> is_word (last pre)" and e: "post = [] \<or> \<not> is_word (hd post)"
    unfolding has_cat_word_def by blast
  have "cat_search False (upper texto) \<noteq> None"
    unfolding eq using g b e by (intro cat_search_complete) (auto simp: word_end_iff)
  then obtain g' where s: "cat_search False (upper texto) = Some g'" by blast
  from cat_search_sound [OF s] obtain pre' post' where
    "g' \<in> set cat_numbers" "upper texto = pre' @ ''CAT'' @ g' @ post'"
    "if pre' = [] then \<not> False else \<not> is_word (last pre')" "word_end post'" by blast
  then have "g' \<in> set cat_numbers \<and> has_cat_word texto g'"
    unfolding has_cat_word_def by (auto simp: word_end_iff split: if_splits)
  moreover have "extract_cat texto = ''CAT'' @ g'" using s by (simp add: extract_cat_def)
  ultimately show "\<exists>g \<in> set cat_numbers. has_cat_word texto g \<and> extract_cat texto = ''CAT'' @ g"
    by blast
next
  assume n: "\<not> (\<exists>g \<in> set cat_numbers. has_cat_word texto g)"
  have "cat_search False (upper texto) = None"
  proof (rule ccontr)
    assume "cat_search False (upper texto) \<noteq> None"
    then obtain g where s: "cat_search False (upper texto) = Some g" by blast
    from cat_search_sound [OF s] obtain pre post where
      "g \<in> set cat_numbers" "upper texto = pre @ ''CAT'' @ g @ post"
      "if pre = [] then \<not> False else \<not> is_word (last pre)" "word_end post" by blast
    then have "g \<in> set cat_numbers \<and> has_cat_word texto g"
      unfolding has_cat_word_def by (auto simp: word_end_iff split: if_splits)
    with n show False by blast
  qed
  then show "extract_cat texto = texto" by (simp add: extract_cat_def)
qed

text \<open>
  The theorem at \<open>cat5 (likely)\<close>, which is canonicalised to \<open>CAT5\<close>, and at \<open>CAT13\<close> and
  \<open>CAT0\<close>, which hold no such word and pass through.
\<close>

theorem extract_cat_canonical_witness:
  "(\<exists>g \<in> set cat_numbers. has_cat_word ''cat5 (likely)'' g)
   \<and> extract_cat ''cat5 (likely)'' = ''CAT5''
   \<and> \<not> (\<exists>g \<in> set cat_numbers. has_cat_word ''CAT13'' g) \<and> extract_cat ''CAT13'' = ''CAT13''
   \<and> \<not> (\<exists>g \<in> set cat_numbers. has_cat_word ''CAT0'' g) \<and> extract_cat ''CAT0'' = ''CAT0''"
proof -
  have u5: "upper ''cat5 (likely)'' = ''CAT5 (LIKELY)''"
    by (simp add: upper_def upper_char_def between_def)
  have u13: "upper ''CAT13'' = ''CAT13''" and u0: "upper ''CAT0'' = ''CAT0''"
    by (simp_all add: upper_def upper_char_def between_def)
  have w: "is_word (CHR ''3'')" "is_word (CHR ''1'')" "is_word (CHR ''0'')"
    "is_word (CHR ''A'')" "is_word (CHR ''T'')" "is_word (CHR ''C'')" "\<not> is_word (CHR '' '')"
    by (simp_all add: is_word_def isdigit_def between_def)
  have c: "class_1_9 (CHR ''5'')" "class_1_9 (CHR ''1'')" "\<not> class_1_9 (CHR ''0'')"
    "\<not> class_0_2 (CHR ''3'')"
    by (simp_all add: class_1_9_def class_0_2_def)
  have s5: "cat_search False (upper ''cat5 (likely)'') = Some ''5''"
    unfolding u5 by (simp add: w c)
  have s13: "cat_search False (upper ''CAT13'') = None"
    unfolding u13 by (simp add: w c)
  have s0: "cat_search False (upper ''CAT0'') = None"
    unfolding u0 by (simp add: w c)
  have h5: "\<exists>g \<in> set cat_numbers. has_cat_word ''cat5 (likely)'' g"
    using s5 by (simp add: has_cat_word_search)
  have h13: "\<not> (\<exists>g \<in> set cat_numbers. has_cat_word ''CAT13'' g)"
    using s13 by (simp add: has_cat_word_search)
  have h0: "\<not> (\<exists>g \<in> set cat_numbers. has_cat_word ''CAT0'' g)"
    using s0 by (simp add: has_cat_word_search)
  from extract_cat_canonical [of "''cat5 (likely)''"] h5
  obtain g where "extract_cat ''cat5 (likely)'' = ''CAT'' @ g" by blast
  moreover have "extract_cat ''cat5 (likely)'' = ''CAT5''"
    using s5 by (simp add: extract_cat_def)
  moreover have "extract_cat ''CAT13'' = ''CAT13''"
    using extract_cat_canonical [of "''CAT13''"] h13 by blast
  moreover have "extract_cat ''CAT0'' = ''CAT0''"
    using extract_cat_canonical [of "''CAT0''"] h0 by blast
  ultimately show ?thesis using h5 h13 h0 by blast
qed

section \<open>Progressive Hint without hints\<close>

text \<open>
  Claim C9. With \<open>max_hints = 0\<close>, every invocation of Progressive Hint makes exactly one
  model call: the prompts sent grow by the one full prompt and by nothing else, so no hint
  round takes place. What the invocation gives is settled by that call. Where the call
  returns a response, the result is a list of one record, whose \<open>categoria\<close> and
  \<open>explicacao\<close> are the category and the explanation extracted from that first response,
  whose \<open>rouge\<close> is 0.0 and whose \<open>iteracao\<close> is 0. Where the call or the extraction raises,
  the exception leaves \<open>execute\<close> and there is no record.
\<close>

theorem progressive_hint_zero_hints:
  assumes "kw_max_hints kw = Some 0"
  shows "sent (snd (progressive_hint_execute env prompt data_row columns kw w))
           = sent w @ [prompt @ '' '' @ output_format]
     \<and> progressive_hint_execute env prompt data_row columns kw w =
         (case model_send env (model_state w) (prompt @ '' '' @ output_format) ''php'' (kw_incident_id kw) of
            (Inl e, m) \<Rightarrow> (Inl e, \<lparr>model_state = m, sent = sent w @ [prompt @ '' '' @ output_format]\<rparr>)
          | (Inr resposta, m) \<Rightarrow>
              (case extract_security_incidents (json_loads env) resposta of
                 Inl e \<Rightarrow> (Inl e, \<lparr>model_state = m, sent = sent w @ [prompt @ '' '' @ output_format]\<rparr>)
               | Inr categoria_info \<Rightarrow>
                   (Inr [[(''id'', VStr (kw_incident_id kw)),
                          (''informacoes_das_colunas'', VStr (build_incident_info data_row columns)),
                          (''categoria'', VStr (Category categoria_info)),
                          (''explicacao'', VStr (Explanation categoria_info)),
                          (''rouge'', VFloat 0),
                          (''iteracao'', VInt 0)]],
                    \<lparr>model_state = m, sent = sent w @ [prompt @ '' '' @ output_format]\<rparr>)))"
proof -
  obtain r m where s: "model_send env (model_state w) (prompt @ '' '' @ output_format) ''php''
      (kw_incident_id kw) = (r, m)"
    by (cases "model_send env (model_state w) (prompt @ '' '' @ output_format) ''php'' (kw_incident_id kw)")
  show ?thesis
  proof (cases r)
    case (Inl e)
    with assms s show ?thesis
      by (simp add: progressive_hint_execute_def send_prompt_def get_or_def Let_def)
  next
    case (Inr resposta)
    with assms s show ?thesis
      by (cases "extract_security_incidents (json_loads env) resposta")
         (simp_all add: progressive_hint_execute_def send_prompt_def get_or_def Let_def hint_result_def)
  qed
qed

text \<open>
  A run with a model that has two responses ready: only the first is used, and the record
  holds what was extracted from it. And a run with a model that raises: one call, no record.
\<close>

theorem progressive_hint_zero_hints_witness:
  "progressive_hint_execute example_env ''incident'' example_row [''descricao'']
       (example_kwargs\<lparr>kw_max_hints := Some 0\<rparr>)
       (start [''Category: cat2 (likely)\<newline>Explanation: ransomware'', ''Category: CAT3\<newline>Explanation: other''])
     = (Inr [[(''id'', VStr ''INC-1''),
              (''informacoes_das_colunas'', VStr ''descricao: server encrypted''),
              (''categoria'', VStr ''CAT2''),
              (''explicacao'', VStr ''ransomware''),
              (''rouge'', VFloat 0),
              (''iteracao'', VInt 0)]],
        \<lparr>model_state = [''Category: CAT3\<newline>Explanation: other''],
         sent = [''incident '' @ output_format]\<rparr>)
   \<and> progressive_hint_execute example_env ''incident'' example_row [''descricao'']
       (example_kwargs\<lparr>kw_max_hints := Some 0\<rparr>) (start [])
     = (Inl (ModelError ''no response left''),
        \<lparr>model_state = [], sent = [''incident '' @ output_format]\<rparr>)"
proof -
  let ?kw = "example_kwargs\<lparr>kw_max_hints := Some 0\<rparr>"
  let ?w = "start [''Category: cat2 (likely)\<newline>Explanation: ransomware'', ''Category: CAT3\<newline>Explanation: other'']"
  have 1: "kw_max_hints ?kw = Some 0" by simp
  have 2: "model_send example_env (model_state ?w) (''incident'' @ '' '' @ output_format) ''php''
             (kw_incident_id ?kw)
           = (Inr ''Category: cat2 (likely)\<newline>Explanation: ransomware'', [''Category: CAT3\<newline>Explanation: other''])"
    by (simp add: example_env_def start_def)
  have 3: "extract_security_incidents (json_loads example_env)
             ''Category: cat2 (likely)\<newline>Explanation: ransomware''
           = Inr \<lparr>Category = ''CAT2'', Explanation = ''ransomware''\<rparr>"
    by (simp add: example_env_def text_eval)
  have 4: "model_send example_env (model_state (start [])) (''incident'' @ '' '' @ output_format) ''php''
             (kw_incident_id ?kw)
           = (Inl (ModelError ''no response left''), [])"
    by (simp add: example_env_def start_def)
  have info: "build_incident_info example_row [''descricao''] = ''descricao: server encrypted''"
    by (simp add: build_incident_info_def example_row_def)
  have a: "progressive_hint_execute example_env ''incident'' example_row [''descricao''] ?kw ?w
     = (Inr [[(''id'', VStr ''INC-1''),
              (''informacoes_das_colunas'', VStr ''descricao: server encrypted''),
              (''categoria'', VStr ''CAT2''),
              (''explicacao'', VStr ''ransomware''),
              (''rouge'', VFloat 0),
              (''iteracao'', VInt 0)]],
        \<lparr>model_state = [''Category: CAT3\<newline>Explanation: other''],
         sent = [''incident '' @ output_format]\<rparr>)"
    using progressive_hint_zero_hints [OF 1, of example_env "''incident''" example_row "[''descricao'']" ?w,
        THEN conjunct2, unfolded 2 3 prod.case sum.case]
    by (simp add: info example_kwargs_def start_def)
  have b: "progressive_hint_execute example_env ''incident'' example_row [''descricao''] ?kw (start [])
     = (Inl (ModelError ''no response left''),
        \<lparr>model_state = [], sent = [''incident '' @ output_format]\<rparr>)"
    using progressive_hint_zero_hints [OF 1, of example_env "''incident''" example_row "[''descricao'']" "start []",
        THEN conjunct2, unfolded 4 prod.case sum.case]
    by (simp add: start_def)
  from a b show ?thesis by simp
qed

section \<open>Progressive Rectification on a category without keywords\<close>

text \<open>The keys of the keyword table are \<open>CAT1\<close> to \<open>CAT12\<close> and \<open>UNKNOWN\<close>.\<close>

lemma palavras_chave_keys:
  "map fst palavras_chave = map (\<lambda>n. ''CAT'' @ n) cat_numbers @ [''UNKNOWN'']"
  by (simp add: palavras_chave_def cat_numbers_def)

lemma get_subcategories_not_key:
  "upper (strip categoria) \<notin> set (map fst palavras_chave) \<Longrightarrow> get_subcategories categoria = []"
  by (simp add: get_subcategories_def map_of_eq_None_iff [THEN iffD2])

lemma prp_while_no_keywords:
  "get_subcategories categoria_atual = [] \<Longrightarrow>
   prp_while env prompt informacoes incident_id max_iter limite_qualidade explicacao attempt
     categoria_atual categoria_rejectada w
   = (Inr [rectification_result incident_id informacoes categoria_atual explicacao 0 max_iter], w)"
proof (induction "nat max_iter - attempt" arbitrary: attempt)
  case 0
  then have "\<not> int attempt < max_iter" by linarith
  then show ?case by (simp add: prp_while.simps [of _ _ _ _ _ _ _ attempt])
next
  case (Suc n)
  then have lt: "int attempt < max_iter" and n: "n = nat max_iter - (attempt + 1)" by linarith+
  have "prp_while env prompt informacoes incident_id max_iter limite_qualidade explicacao attempt
          categoria_atual categoria_rejectada w
        = prp_while env prompt informacoes incident_id max_iter limite_qualidade explicacao
            (attempt + 1) categoria_atual categoria_rejectada w"
    using lt Suc.prems by (simp add: prp_while.simps [of _ _ _ _ _ _ _ attempt])
  also have "\<dots> = (Inr [rectification_result incident_id informacoes categoria_atual explicacao 0 max_iter], w)"
    using Suc.hyps(1) [OF n Suc.prems] .
  finally show ?case .
qed

text \<open>
  Claim C10. When the first candidate, stripped and upper-cased, is not a key of the keyword
  table (none of \<open>CAT1\<close> to \<open>CAT12\<close>, and not \<open>UNKNOWN\<close>), the lookup gives the empty list,
  no prompt is sent after the first one, and \<open>execute\<close> returns one record: its \<open>categoria\<close>
  is that candidate, unchanged, its \<open>explicacao\<close> the first explanation, its \<open>qualidade\<close> 0.0
  and its \<open>iteracao\<close> the value of \<open>max_iter\<close> (4 when the argument is not passed).
\<close>

theorem rectification_unknown_candidate:
  assumes "model_send env (model_state w) (prompt @ '' '' @ output_format) ''prp'' (kw_incident_id kw)
             = (Inr r_0, m)"
    and "extract_security_incidents (json_loads env) r_0 = Inr a_0"
    and "upper (strip (Category a_0)) \<notin> set (map (\<lambda>n. ''CAT'' @ n) cat_numbers @ [''UNKNOWN''])"
  shows "map_of palavras_chave (upper (strip (Category a_0))) = None
     \<and> get_subcategories (Category a_0) = []
     \<and> progressive_rectification_execute env prompt data_row columns kw w =
         (Inr [[(''id'', VStr (kw_incident_id kw)),
                (''informacoes_das_colunas'', VStr (build_incident_info data_row columns)),
                (''categoria'', VStr (Category a_0)),
                (''explicacao'', VStr (Explanation a_0)),
                (''qualidade'', VFloat 0),
                (''iteracao'', VInt (case kw_max_iter kw of Some n \<Rightarrow> n | None \<Rightarrow> 4))]],
          \<lparr>model_state = m, sent = sent w @ [prompt @ '' '' @ output_format]\<rparr>)"
proof -
  from assms(3) have k: "upper (strip (Category a_0)) \<notin> set (map fst palavras_chave)"
    unfolding palavras_chave_keys .
  then have n: "map_of palavras_chave (upper (strip (Category a_0))) = None"
    by (simp add: map_of_eq_None_iff)
  have g: "get_subcategories (Category a_0) = []"
    using k by (rule get_subcategories_not_key)
  have "progressive_rectification_execute env prompt data_row columns kw w =
          (Inr [rectification_result (kw_incident_id kw) (build_incident_info data_row columns)
                  (Category a_0) (Explanation a_0) 0 (get_or (kw_max_iter kw) 4)],
           \<lparr>model_state = m, sent = sent w @ [prompt @ '' '' @ output_format]\<rparr>)"
    using assms(1,2) g
    by (simp add: progressive_rectification_execute_def send_prompt_def Let_def prp_while_no_keywords)
  with n g show ?thesis
    by (simp add: rectification_result_def get_or_def)
qed

text \<open>
  A run whose first response names the category \<open>Malware\<close>, with \<open>max_iter\<close> not passed, and the
  same run with \<open>max_iter = 2\<close>: the second response of the model is never asked for.
\<close>

theorem rectification_unknown_candidate_witness:
  "get_subcategories ''Malware'' = []
   \<and> progressive_rectification_execute example_env ''incident'' example_row [''descricao'']
       example_kwargs (start [''Category: Malware\<newline>Explanation: ransomware'', ''unused''])
     = (Inr [[(''id'', VStr ''INC-1''),
              (''informacoes_das_colunas'', VStr ''descricao: server encrypted''),
              (''categoria'', VStr ''Malware''),
              (''explicacao'', VStr ''ransomware''),
              (''qualidade'', VFloat 0),
              (''iteracao'', VInt 4)]],
        \<lparr>model_state = [''unused''], sent = [''incident '' @ output_format]\<rparr>)
   \<and> progressive_rectification_execute example_env ''incident'' example_row [''descricao'']
       (example_kwargs\<lparr>kw_max_iter := Some 2\<rparr>)
       (start [''Category: Malware\<newline>Explanation: ransomware'', ''unused''])
     = (Inr [[(''id'', VStr ''INC-1''),
              (''informacoes_das_colunas'', VStr ''descricao: server encrypted''),
              (''categoria'', VStr ''Malware''),
              (''explicacao'', VStr ''ransomware''),
              (''qualidade'', VFloat 0),
              (''iteracao'', VInt 2)]],
        \<lparr>model_state = [''unused''], sent = [''incident '' @ output_format]\<rparr>)"
proof -
  let ?w = "start [''Category: Malware\<newline>Explanation: ransomware'', ''unused'']"
  let ?kw2 = "example_kwargs\<lparr>kw_max_iter := Some 2\<rparr>"
  have 1: "model_send example_env (model_state ?w) (''incident'' @ '' '' @ output_format) ''prp''
             (kw_incident_id example_kwargs)
           = (Inr ''Category: Malware\<newline>Explanation: ransomware'', [''unused''])"
    by (simp add: example_env_def start_def)
  have 5: "model_send example_env (model_state ?w) (''incident'' @ '' '' @ output_format) ''prp''
             (kw_incident_id ?kw2)
           = (Inr ''Category: Malware\<newline>Explanation: ransomware'', [''unused''])"
    by (simp add: example_env_def start_def)
  have 2: "extract_security_incidents (json_loads example_env)
             ''Category: Malware\<newline>Explanation: ransomware''
           = Inr \<lparr>Category = ''Malware'', Explanation = ''ransomware''\<rparr>"
    by (simp add: example_env_def text_eval)
  have 3: "upper (strip (Category \<lparr>Category = ''Malware'', Explanation = ''ransomware''\<rparr>))
             \<notin> set (map (\<lambda>n. ''CAT'' @ n) cat_numbers @ [''UNKNOWN''])"
    by (simp add: cat_numbers_def text_eval)
  have info: "build_incident_info example_row [''descricao''] = ''descricao: server encrypted''"
    by (simp add: build_incident_info_def example_row_def)
  have k: "kw_max_iter example_kwargs = None" "kw_incident_id example_kwargs = ''INC-1''"
    by (simp_all add: example_kwargs_def)
  show ?thesis
    using rectification_unknown_candidate [OF 1 2 3, of example_row "[''descricao'']"]
      rectification_unknown_candidate [OF 5 2 3, of example_row "[''descricao'']"]
    by (simp add: info k start_def)
qed

section \<open>The extractor\<close>

text \<open>The two functions \<open>extract_security_incidents\<close> of the repository compute the same.\<close>

lemma extract_utils_same:
  "extract_security_incidents_utils loads texto = extract_security_incidents loads texto"
  by (simp add: extract_security_incidents_utils_def extract_security_incidents_def is_valid_json_def
      split: sum.splits)

lemma map_of_key: "map_of kvs k = Some v \<Longrightarrow> k \<in> set (map fst kvs)"
  by (metis domI dom_map_of_conv_image_fst set_map)

text \<open>
  A match has one text for each capturing group of the pattern, so a match of \<open>padrao\<close> has
  the two texts the code reads with \<open>ultima_ocorrencia[0]\<close> and \<open>ultima_ocorrencia[1]\<close>.
\<close>

lemma rmatch_groups:
  "rmatch ps s = Some (caps, rest) \<Longrightarrow> length caps = length (filter (\<lambda>p. p = LazyGroup) ps)"
proof (induction ps s arbitrary: caps rest rule: rmatch.induct)
  case (1 s)
  then show ?case by simp
next
  case (2 ps s)
  then show ?case by simp
next
  case (3 a alts ps s)
  show ?case
  proof (cases "starts_with s a")
    case True
    show ?thesis
    proof (cases "rmatch ps (drop (length a) s)")
      case None
      with True "3.prems" have "rmatch (Lits alts # ps) s = Some (caps, rest)" by simp
      from "3.IH"(2) [OF True None this] show ?thesis by simp
    next
      case (Some r)
      with True "3.prems" have "rmatch ps (drop (length a) s) = Some (caps, rest)" by simp
      from "3.IH"(1) [OF True this] show ?thesis by simp
    qed
  next
    case False
    with "3.prems" have "rmatch (Lits alts # ps) s = Some (caps, rest)" by simp
    from "3.IH"(3) [OF False this] show ?thesis by simp
  qed
next
  case (4 ps)
  then show ?case by simp
next
  case (5 ps c cs)
  show ?case
  proof (cases "isspace c")
    case True
    show ?thesis
    proof (cases "rmatch (Spaces # ps) cs")
      case None
      with True "5.prems" have "rmatch ps (c # cs) = Some (caps, rest)" by simp
      from "5.IH"(2) [OF True None this] show ?thesis by simp
    next
      case (Some r)
      with True "5.prems" have "rmatch (Spaces # ps) cs = Some (caps, rest)" by simp
      from "5.IH"(1) [OF True this] show ?thesis by simp
    qed
  next
    case False
    with "5.prems" have "rmatch ps (c # cs) = Some (caps, rest)" by simp
    from "5.IH"(3) [OF False this] show ?thesis by simp
  qed
next
  case (6 ps s)
  show ?case
  proof (cases "rmatch ps s")
    case (Some r)
    obtain caps' rest' where r: "r = (caps', rest')" by (cases r)
    with Some "6.prems" have "caps = [] # caps'" by simp
    moreover from "6.IH"(1) [of caps' rest'] Some r
    have "length caps' = length (filter (\<lambda>p. p = LazyGroup) ps)" by simp
    ultimately show ?thesis by simp
  next
    case None
    with "6.prems" obtain c cs where s: "s = c # cs" by (cases s) simp_all
    show ?thesis
    proof (cases "rmatch (LazyGroup # ps) cs")
      case n: None
      with None s "6.prems" show ?thesis by simp
    next
      case (Some r)
      obtain caps' rest' where r: "r = (caps', rest')" by (cases r)
      from "6.IH"(2) [OF None s, of caps' rest'] Some r
      have l: "length caps' = length (filter (\<lambda>p. p = LazyGroup) (LazyGroup # ps))" by simp
      then obtain cap caps'' where c: "caps' = cap # caps''" by (cases caps') simp_all
      with None s Some r "6.prems" have "caps = (c # cap) # caps''" by simp
      with l c show ?thesis by simp
    qed
  qed
next
  case (7 ps s)
  show ?case
  proof (cases "case s of [] \<Rightarrow> True | c # cs \<Rightarrow> c = CHR 0x0A")
    case True
    with "7.prems" have "rmatch ps s = Some (caps, rest)" by simp
    from "7.IH" [OF True this] show ?thesis by simp
  next
    case False
    with "7.prems" show ?thesis by simp
  qed
qed

lemma findall_groups:
  "u \<in> set (findall pat s) \<Longrightarrow> length u = length (filter (\<lambda>p. p = LazyGroup) pat)"
proof (induction s rule: length_induct)
  case (1 s)
  have IH: "length u = length (filter (\<lambda>p. p = LazyGroup) pat)"
    if "length t < length s" "u \<in> set (findall pat t)" for t
    using "1.IH" that by blast
  from "1.prems" have mem: "u \<in> set
     (case rmatch pat s of
        Some (caps, rest) \<Rightarrow>
          caps # (if length rest < length s then findall pat rest
                  else (case s of [] \<Rightarrow> [] | c # cs \<Rightarrow> findall pat cs))
      | None \<Rightarrow> (case s of [] \<Rightarrow> [] | c # cs \<Rightarrow> findall pat cs))"
    by (subst (asm) findall.simps)
  show ?case
  proof (cases "rmatch pat s")
    case None
    with mem obtain c cs where "s = c # cs" "u \<in> set (findall pat cs)"
      by (cases s) simp_all
    then show ?thesis using IH [of cs] by simp
  next
    case (Some r)
    obtain caps rest where r: "r = (caps, rest)" by (cases r)
    show ?thesis
    proof (cases "u = caps")
      case True
      then show ?thesis using rmatch_groups [of pat s caps rest] Some r by simp
    next
      case False
      show ?thesis
      proof (cases "length rest < length s")
        case True
        with mem Some r False have "u \<in> set (findall pat rest)" by simp
        with True show ?thesis by (rule IH)
      next
        case nl: False
        with mem Some r False obtain c cs where "s = c # cs" "u \<in> set (findall pat cs)"
          by (cases s) simp_all
        then show ?thesis using IH [of cs] by simp
      qed
    qed
  qed
qed

lemma padrao_groups: "u \<in> set (findall padrao s) \<Longrightarrow> length u = 2"
  by (drule findall_groups) (simp add: padrao_def)

text \<open>
  The text \<open>long_number_text\<close>: five thousand digits, on which \<open>json.loads\<close> raises
  \<open>ValueError\<close>, followed by two blocks, which the pattern finds.
\<close>

lemma all_ones: "\<forall>x \<in> set (replicate n (CHR ''1'')). isdigit x"
  by (simp add: isdigit_def between_def)

lemma long_number_too_many: "too_many_digits long_number_text"
proof -
  have r: "replicate 5000 (CHR ''1'') = CHR ''1'' # replicate 4999 (CHR ''1'')"
    by (simp add: replicate_Suc [symmetric] del: replicate_Suc)
  have t: "takeWhile isdigit long_number_text
             = replicate 5000 (CHR ''1'') @ takeWhile isdigit
                 ''\<newline>Category: CAT1\<newline>Explanation: first\<newline>Category: CAT2\<newline>Explanation: second''"
    unfolding long_number_text_def using all_ones by (intro takeWhile_append2) blast
  have d: "dropWhile isdigit long_number_text
             = dropWhile isdigit
                 ''\<newline>Category: CAT1\<newline>Explanation: first\<newline>Category: CAT2\<newline>Explanation: second''"
    unfolding long_number_text_def using all_ones by (intro dropWhile_append2) blast
  have h: "(case long_number_text of [] \<Rightarrow> False | c # cs \<Rightarrow> class_1_9 c)"
    unfolding long_number_text_def r by (simp add: class_1_9_def)
  show ?thesis
    unfolding too_many_digits_def t d using h by (simp add: isdigit_def between_def)
qed

lemma rmatch_padrao_one: "rmatch padrao (CHR ''1'' # s) = None"
  by (simp add: padrao_def)

lemma findall_skip_ones: "findall padrao (replicate n (CHR ''1'') @ s) = findall padrao s"
proof (induction n)
  case 0
  show ?case by simp
next
  case (Suc n)
  have "findall padrao (CHR ''1'' # replicate n (CHR ''1'') @ s) = findall padrao (replicate n (CHR ''1'') @ s)"
    by (subst findall.simps) (simp add: rmatch_padrao_one)
  with Suc show ?case by simp
qed

lemma findall_long: "findall padrao long_number_text = [[''CAT1'', ''first''], [''CAT2'', ''second'']]"
  unfolding long_number_text_def findall_skip_ones by (simp add: text_eval)

subsection \<open>The JSON path\<close>

text \<open>
  Where the text parses as JSON into an object whose values under the keys \<open>Category\<close> and
  \<open>Explanation\<close> are strings, both copies of the extraction return exactly those two
  strings with the surrounding white space stripped: the regular expression plays no part,
  and the category is not canonicalised.
\<close>

lemma json_strings_verbatim:
  assumes "loads texto = Inr (JObject kvs)"
    and "map_of kvs ''Category'' = Some (JString c)"
    and "map_of kvs ''Explanation'' = Some (JString x)"
  shows "extract_security_incidents loads texto = Inr \<lparr>Category = strip c, Explanation = strip x\<rparr>
     \<and> extract_security_incidents_utils loads texto = Inr \<lparr>Category = strip c, Explanation = strip x\<rparr>"
  using assms map_of_key [OF assms(2)] map_of_key [OF assms(3)]
  by (simp add: extract_utils_same extract_security_incidents_def json_path_def)

text \<open>
  The category \<open>cat2 (likely)\<close> comes back stripped and otherwise as it is, although
  \<open>extract_cat\<close> would turn it into \<open>CAT2\<close>; and the example of the specification.
\<close>

lemma json_strings_verbatim_examples:
  \<open>extract_security_incidents json_loads_examples
      ''{"Category": " cat2 (likely) ", "Explanation": "ransomware found  "}''
    = Inr \<lparr>Category = ''cat2 (likely)'', Explanation = ''ransomware found''\<rparr>
   \<and> extract_security_incidents_utils json_loads_examples
      ''{"Category": " cat2 (likely) ", "Explanation": "ransomware found  "}''
    = Inr \<lparr>Category = ''cat2 (likely)'', Explanation = ''ransomware found''\<rparr>
   \<and> extract_cat ''cat2 (likely)'' = ''CAT2''
   \<and> extract_security_incidents json_loads_examples
      ''{"Category":"CAT2","Explanation":"ransomware found"}''
    = Inr \<lparr>Category = ''CAT2'', Explanation = ''ransomware found''\<rparr>\<close>
proof -
  let ?t2 = \<open>''{"Category":"CAT2","Explanation":"ransomware found"}''\<close>
  let ?kvs2 = "[(''Category'', JString ''CAT2''), (''Explanation'', JString ''ransomware found'')]"
  have 4: "json_loads_examples ?t2 = Inr (JObject ?kvs2)"
    by (simp add: json_loads_examples_def too_many_digits_def class_1_9_def)
  have 5: "map_of ?kvs2 ''Category'' = Some (JString ''CAT2'')" by simp
  have 6: "map_of ?kvs2 ''Explanation'' = Some (JString ''ransomware found'')" by simp
  have s2: "strip ''CAT2'' = ''CAT2''" "strip ''ransomware found'' = ''ransomware found''"
    by (simp_all add: strip_def isspace_def)
  let ?t = \<open>''{"Category": " cat2 (likely) ", "Explanation": "ransomware found  "}''\<close>
  let ?kvs = "[(''Category'', JString '' cat2 (likely) ''), (''Explanation'', JString ''ransomware found  '')]"
  have 1: "json_loads_examples ?t = Inr (JObject ?kvs)"
    by (simp add: json_loads_examples_def too_many_digits_def class_1_9_def)
  have 2: "map_of ?kvs ''Category'' = Some (JString '' cat2 (likely) '')" by simp
  have 3: "map_of ?kvs ''Explanation'' = Some (JString ''ransomware found  '')" by simp
  have s: "strip '' cat2 (likely) '' = ''cat2 (likely)''" "strip ''ransomware found  '' = ''ransomware found''"
    by (simp_all add: strip_def isspace_def)
  have c: "extract_cat ''cat2 (likely)'' = ''CAT2''" by (simp add: text_eval)
  show ?thesis
    using json_strings_verbatim [of json_loads_examples ?t ?kvs "'' cat2 (likely) ''" "''ransomware found  ''"]
      json_strings_verbatim [of json_loads_examples ?t2 ?kvs2 "''CAT2''" "''ransomware found''"]
      1 2 3 4 5 6 s s2 c by simp
qed

text \<open>
  Claim C5. The extraction is to return the two trimmed values for every text that parses
  into an object holding both keys, and does not: the response
  \<open>{"Category": "CAT2", "Explanation": null}\<close> parses into such an object, and both copies
  of the extraction raise \<open>AttributeError\<close> on it, where the code calls \<open>strip\<close> on the value
  \<open>null\<close>. No pair comes back, and the regular expression, which would find nothing in this
  text and give the pair \<open>unknown\<close>, is not reached either.
\<close>

theorem json_value_not_string_raises:
  \<open>json_loads_examples ''{"Category": "CAT2", "Explanation": null}''
     = Inr (JObject [(''Category'', JString ''CAT2''), (''Explanation'', JNull)])
   \<and> py_in ''Category'' (JObject [(''Category'', JString ''CAT2''), (''Explanation'', JNull)]) = Inr True
   \<and> py_in ''Explanation'' (JObject [(''Category'', JString ''CAT2''), (''Explanation'', JNull)]) = Inr True
   \<and> extract_security_incidents json_loads_examples ''{"Category": "CAT2", "Explanation": null}''
     = Inl (AttributeError ''NoneType object has no attribute strip'')
   \<and> extract_security_incidents_utils json_loads_examples ''{"Category": "CAT2", "Explanation": null}''
     = Inl (AttributeError ''NoneType object has no attribute strip'')
   \<and> regex_path ''{"Category": "CAT2", "Explanation": null}''
     = \<lparr>Category = ''unknown'', Explanation = ''unknown''\<rparr>\<close>
proof -
  let ?t = \<open>''{"Category": "CAT2", "Explanation": null}''\<close>
  have l: "json_loads_examples ?t = Inr (JObject [(''Category'', JString ''CAT2''), (''Explanation'', JNull)])"
    by (simp add: json_loads_examples_def too_many_digits_def class_1_9_def)
  have x: "extract_security_incidents json_loads_examples ?t
             = Inl (AttributeError ''NoneType object has no attribute strip'')"
    by (simp add: l extract_security_incidents_def json_path_def strip_def isspace_def)
  have u: "extract_security_incidents_utils json_loads_examples ?t
             = Inl (AttributeError ''NoneType object has no attribute strip'')"
    by (simp add: l extract_security_incidents_utils_def is_valid_json_def json_path_def strip_def isspace_def)
  have r: "regex_path ?t = \<lparr>Category = ''unknown'', Explanation = ''unknown''\<rparr>"
    by (simp add: text_eval)
  show ?thesis using l x u r by simp
qed

subsection \<open>Exceptions of the JSON path\<close>

text \<open>
  Claim C4. The extraction is meant to return a pair for every text, and does not: where
  the text is valid JSON and the parsed value is an object whose \<open>Category\<close> is not a
  string (the key \<open>Explanation\<close> present), it raises \<open>AttributeError\<close>; where the value is a
  string holding both words, or a number, it raises \<open>TypeError\<close>. Neither is caught.
\<close>

theorem extract_raises:
  "(loads texto = Inr (JObject kvs) \<and> map_of kvs ''Category'' = Some v
      \<and> ''Explanation'' \<in> set (map fst kvs) \<and> (\<forall>s. v \<noteq> JString s)
     \<longrightarrow> (\<exists>m. extract_security_incidents loads texto = Inl (AttributeError m)))
   \<and> (loads texto = Inr (JString s) \<and> str_contains s ''Category'' \<and> str_contains s ''Explanation''
     \<longrightarrow> (\<exists>m. extract_security_incidents loads texto = Inl (TypeError m)))
   \<and> (loads texto = Inr (JInt n)
     \<longrightarrow> (\<exists>m. extract_security_incidents loads texto = Inl (TypeError m)))"
proof (intro conjI impI)
  assume a: "loads texto = Inr (JObject kvs) \<and> map_of kvs ''Category'' = Some v
      \<and> ''Explanation'' \<in> set (map fst kvs) \<and> (\<forall>s. v \<noteq> JString s)"
  then have "map_of kvs ''Category'' = Some v" by simp
  then have k: "''Category'' \<in> set (map fst kvs)" by (rule map_of_key)
  from a have "\<exists>m. py_strip v = Inl (AttributeError m)" by (cases v) simp_all
  then obtain m where "py_strip v = Inl (AttributeError m)" ..
  with a k show "\<exists>m. extract_security_incidents loads texto = Inl (AttributeError m)"
    by (simp add: extract_security_incidents_def json_path_def)
next
  assume "loads texto = Inr (JString s) \<and> str_contains s ''Category'' \<and> str_contains s ''Explanation''"
  then show "\<exists>m. extract_security_incidents loads texto = Inl (TypeError m)"
    by (simp add: extract_security_incidents_def json_path_def)
next
  assume "loads texto = Inr (JInt n)"
  then show "\<exists>m. extract_security_incidents loads texto = Inl (TypeError m)"
    by (simp add: extract_security_incidents_def json_path_def)
qed

text \<open>The three cases at the texts \<open>{"Category": 1, "Explanation": "x"}\<close>,
  \<open>"Category and Explanation"\<close> and \<open>5\<close>.\<close>

theorem extract_raises_witness:
  \<open>extract_security_incidents json_loads_examples ''{"Category": 1, "Explanation": "x"}''
     = Inl (AttributeError ''int object has no attribute strip'')
   \<and> extract_security_incidents json_loads_examples ''"Category and Explanation"''
     = Inl (TypeError ''string indices must be integers, not str'')
   \<and> extract_security_incidents json_loads_examples ''5''
     = Inl (TypeError ''argument of type int is not iterable'')\<close>
proof -
  let ?t1 = \<open>''{"Category": 1, "Explanation": "x"}''\<close>
  let ?kvs = "[(''Category'', JInt 1), (''Explanation'', JString ''x'')]"
  let ?t2 = \<open>''"Category and Explanation"''\<close>
  have 1: "json_loads_examples ?t1 = Inr (JObject ?kvs) \<and> map_of ?kvs ''Category'' = Some (JInt 1)
      \<and> ''Explanation'' \<in> set (map fst ?kvs) \<and> (\<forall>s. JInt 1 \<noteq> JString s)"
    by (simp add: json_loads_examples_def too_many_digits_def class_1_9_def)
  have 2: "json_loads_examples ?t2 = Inr (JString ''Category and Explanation'')
      \<and> str_contains ''Category and Explanation'' ''Category''
      \<and> str_contains ''Category and Explanation'' ''Explanation''"
    by (simp add: json_loads_examples_def too_many_digits_def class_1_9_def)
  have 3: "json_loads_examples ''5'' = Inr (JInt 5)"
    by (simp add: json_loads_examples_def too_many_digits_def class_1_9_def)
  from extract_raises [of json_loads_examples ?t1 ?kvs "JInt 1"] 1
  obtain m1 where m1: "extract_security_incidents json_loads_examples ?t1 = Inl (AttributeError m1)"
    by blast
  from extract_raises [of json_loads_examples ?t2 _ _ "''Category and Explanation''"] 2
  obtain m2 where m2: "extract_security_incidents json_loads_examples ?t2 = Inl (TypeError m2)"
    by blast
  from extract_raises [of json_loads_examples "''5''" _ _ _ 5] 3
  obtain m3 where m3: "extract_security_incidents json_loads_examples ''5'' = Inl (TypeError m3)"
    by blast
  have "m1 = ''int object has no attribute strip''"
    using m1 1 by (simp add: extract_security_incidents_def json_path_def)
  moreover have "m2 = ''string indices must be integers, not str''"
    using m2 2 by (simp add: extract_security_incidents_def json_path_def)
  moreover have "m3 = ''argument of type int is not iterable''"
    using m3 3 by (simp add: extract_security_incidents_def json_path_def)
  ultimately show ?thesis using m1 m2 m3 by simp
qed

subsection \<open>The regular expression path\<close>

text \<open>
  Where \<open>json.loads\<close> raises \<open>JSONDecodeError\<close> and the pattern matches more than once, both
  copies of the extraction return the groups of the last match: the first one with the
  asterisks and the newlines removed, stripped and canonicalised, as the category; the
  second one with the asterisks and the newlines removed and stripped, as the explanation.
\<close>

lemma regex_last_match:
  assumes "loads texto = Inl (JSONDecodeError m)" and "1 < length (findall padrao texto)"
  shows "extract_security_incidents loads texto =
           Inr \<lparr>Category = extract_cat (strip (filter (\<lambda>c. c \<noteq> CHR 0x0A)
                              (filter (\<lambda>c. c \<noteq> CHR ''*'') (last (findall padrao texto) ! 0)))),
                Explanation = strip (filter (\<lambda>c. c \<noteq> CHR 0x0A)
                              (filter (\<lambda>c. c \<noteq> CHR ''*'') (last (findall padrao texto) ! 1)))\<rparr>
     \<and> extract_security_incidents_utils loads texto = extract_security_incidents loads texto
     \<and> length (last (findall padrao texto)) = 2"
proof -
  from assms(2) have ne: "findall padrao texto \<noteq> []" by auto
  then have "last (findall padrao texto) \<in> set (findall padrao texto)" by simp
  then have "length (last (findall padrao texto)) = 2" by (rule padrao_groups)
  then show ?thesis using assms(1) ne
    by (simp add: extract_security_incidents_def regex_path_def Let_def clean_def remove_char_def
        extract_security_incidents_utils_def is_valid_json_def)
qed

text \<open>
  A text with two blocks, the second one with asterisks, a newline inside the category and
  blanks after the explanation: the result is the second block, cleaned, not the first.
\<close>

lemma regex_last_match_example:
  "findall padrao
     ''Category: CAT1\<newline>Explanation: first\<newline>Category: *cat2*\<newline>(likely)\<newline>Explanation: *second*  ''
     = [[''CAT1'', ''first''], [''*cat2*\<newline>(likely)'', ''*second*  '']]
   \<and> extract_security_incidents json_loads_examples
       ''Category: CAT1\<newline>Explanation: first\<newline>Category: *cat2*\<newline>(likely)\<newline>Explanation: *second*  ''
     = Inr \<lparr>Category = ''CAT2'', Explanation = ''second''\<rparr>
   \<and> extract_security_incidents_utils json_loads_examples
       ''Category: CAT1\<newline>Explanation: first\<newline>Category: *cat2*\<newline>(likely)\<newline>Explanation: *second*  ''
     = Inr \<lparr>Category = ''CAT2'', Explanation = ''second''\<rparr>"
proof -
  let ?t = "''Category: CAT1\<newline>Explanation: first\<newline>Category: *cat2*\<newline>(likely)\<newline>Explanation: *second*  ''"
  have f: "findall padrao ?t = [[''CAT1'', ''first''], [''*cat2*\<newline>(likely)'', ''*second*  '']]"
    by (simp add: text_eval)
  have 1: "json_loads_examples ?t = Inl (JSONDecodeError ''Expecting value'')"
    by (simp add: json_loads_examples_def too_many_digits_def class_1_9_def)
  have 2: "1 < length (findall padrao ?t)" unfolding f by simp
  have c: "extract_cat (strip ''cat2(likely)'') = ''CAT2''" "strip ''second  '' = ''second''"
    by (simp_all add: text_eval)
  show ?thesis
    using regex_last_match [of json_loads_examples ?t "''Expecting value''"] 1 2 c unfolding f by simp
qed

text \<open>
  Claim C6. The extraction is to return the last block of every text that is not JSON and
  holds more than one block, and does not: \<open>json.loads\<close> raises more than
  \<open>JSONDecodeError\<close> on texts that are not JSON, and the code catches only that one. On the
  text \<open>long_number_text\<close>, five thousand digits followed by two blocks, \<open>json.loads\<close> raises
  \<open>ValueError\<close>; the pattern matches twice in the text, yet both copies of the extraction
  raise the \<open>ValueError\<close> instead of returning the second block.
\<close>

theorem regex_skipped_on_value_error:
  "json_loads_examples long_number_text
     = Inl (ValueError ''Exceeds the limit (4300 digits) for integer string conversion'')
   \<and> findall padrao long_number_text = [[''CAT1'', ''first''], [''CAT2'', ''second'']]
   \<and> regex_path long_number_text = \<lparr>Category = ''CAT2'', Explanation = ''second''\<rparr>
   \<and> extract_security_incidents json_loads_examples long_number_text
     = Inl (ValueError ''Exceeds the limit (4300 digits) for integer string conversion'')
   \<and> extract_security_incidents_utils json_loads_examples long_number_text
     = Inl (ValueError ''Exceeds the limit (4300 digits) for integer string conversion'')"
proof -
  have l: "json_loads_examples long_number_text
             = Inl (ValueError ''Exceeds the limit (4300 digits) for integer string conversion'')"
    using long_number_too_many by (simp add: json_loads_examples_def)
  have c: "extract_cat (clean ''CAT2'') = ''CAT2''" "clean ''second'' = ''second''"
    by (simp_all add: text_eval)
  have r: "regex_path long_number_text = \<lparr>Category = ''CAT2'', Explanation = ''second''\<rparr>"
    by (simp add: regex_path_def findall_long c)
  have x: "extract_security_incidents json_loads_examples long_number_text
             = Inl (ValueError ''Exceeds the limit (4300 digits) for integer string conversion'')"
    by (simp add: l extract_security_incidents_def)
  have u: "extract_security_incidents_utils json_loads_examples long_number_text
             = Inl (ValueError ''Exceeds the limit (4300 digits) for integer string conversion'')"
    by (simp add: l extract_security_incidents_utils_def is_valid_json_def)
  show ?thesis using l findall_long r x u by simp
qed

section \<open>The runner\<close>

text \<open>
  What the loop adds to \<open>results\<close> does not depend on what \<open>results\<close> holds, and the loop over
  a batch is the loop over its first rows followed by the loop over the others.
\<close>

lemma process_rows_results:
  "process_rows config t columns params rows results w =
     (results @ fst (process_rows config t columns params rows [] w),
      snd (process_rows config t columns params rows [] w))"
proof (induction rows arbitrary: results w)
  case Nil
  show ?case by simp
next
  case (Cons r rows)
  obtain added w' where p: "process_row config t columns params r w = (added, w')"
    by (cases "process_row config t columns params r w")
  show ?case
    using Cons.IH [of "results @ added" w'] Cons.IH [of added w'] by (simp add: p)
qed

lemma process_rows_append:
  "process_rows config t columns params (xs @ ys) [] w =
     (fst (process_rows config t columns params xs [] w)
        @ fst (process_rows config t columns params ys [] (snd (process_rows config t columns params xs [] w))),
      snd (process_rows config t columns params ys [] (snd (process_rows config t columns params xs [] w))))"
proof (induction xs arbitrary: w)
  case Nil
  show ?case by simp
next
  case (Cons r xs)
  obtain added w' where p: "process_row config t columns params r w = (added, w')"
    by (cases "process_row config t columns params r w")
  show ?case
    using Cons.IH [of w']
      process_rows_results [of config t columns params "xs @ ys" added w']
      process_rows_results [of config t columns params xs added w']
    by (simp add: p)
qed

text \<open>
  Claim C8. When the technique raises on one row of the batch, the runner adds exactly one
  error record for that row (its id, its rendered columns, \<open>categoria = ERROR\<close>, the
  exception's message in \<open>explicacao\<close>, \<open>erro = True\<close>) and goes on: the results are those of the
  rows before it, the error record, and those of the rows after it, processed from the state
  the failed call left.
\<close>

theorem row_isolation:
  assumes "concat dataframes = before @ (index, row) # after"
    and "params = update_params default_params kw"
    and "incident_id = (case row ''id'' of Some v \<Rightarrow> v | None \<Rightarrow> ''row_'' @ index)"
    and "process_rows config t columns params before [] w = (results_before, w1)"
    and "t (build_prompt config row columns) row columns (params\<lparr>kw_incident_id := incident_id\<rparr>) w1
           = (Inl e, w2)"
    and "process_rows config t columns params after [] w2 = (results_after, w3)"
  shows "process_all_incidents config t dataframes columns default_params kw w =
           (results_before
              @ [error_result incident_id (build_incident_info row columns) e]
              @ results_after, w3)
     \<and> error_result incident_id (build_incident_info row columns) e =
           [(''id'', VStr incident_id),
            (''informacoes_das_colunas'', VStr (build_incident_info row columns)),
            (''categoria'', VStr ''ERROR''),
            (''explicacao'', VStr (''Erro no processamento: '' @ str_exception e)),
            (''erro'', VBool True)]"
proof -
  have row: "process_row config t columns params (index, row) w1
               = ([error_result incident_id (build_incident_info row columns) e], w2)"
    using assms(3,5) by (simp add: process_row_def Let_def)
  have "process_rows config t columns params ((index, row) # after) [] w1
          = ([error_result incident_id (build_incident_info row columns) e] @ results_after, w3)"
    using row assms(6)
      process_rows_results [of config t columns params after
        "[error_result incident_id (build_incident_info row columns) e]" w2]
    by simp
  then show ?thesis
    using assms(1,2,4) process_rows_append [of config t columns params before "(index, row) # after" w]
    by (simp add: process_all_incidents_def error_result_def)
qed

text \<open>
  A batch of five rows in two data frames, run with Progressive Hint (\<open>max_hints = 0\<close>) on a
  model whose third call raises: five records, the third one the error record.
\<close>

lemmas runner_eval =
  process_row_def progressive_hint_execute_def send_prompt_def failing_env_def get_or_def
  update_params_def build_incident_info_def numbered_row_def ensure_id_def hint_result_def
  Let_def

theorem row_isolation_witness:
  "fst (process_all_incidents example_config (progressive_hint_execute failing_env)
          [[numbered_row ''1'', numbered_row ''2'', numbered_row ''3''],
           [numbered_row ''4'', numbered_row ''5'']]
          [''descricao'']
          (example_kwargs\<lparr>kw_max_hints := Some 0\<rparr>) example_kwargs
          \<lparr>model_state = 0, sent = []\<rparr>)
   = [hint_result ''INC-1'' ''descricao: event 1'' ''CAT2'' ''malware'' 0 0,
      hint_result ''INC-2'' ''descricao: event 2'' ''CAT2'' ''malware'' 0 0,
      error_result ''INC-3'' ''descricao: event 3'' (ModelError ''connection refused''),
      hint_result ''INC-4'' ''descricao: event 4'' ''CAT2'' ''malware'' 0 0,
      hint_result ''INC-5'' ''descricao: event 5'' ''CAT2'' ''malware'' 0 0]"
proof -
  let ?t = "progressive_hint_execute failing_env"
  let ?cols = "[''descricao'']"
  let ?params = "update_params (example_kwargs\<lparr>kw_max_hints := Some 0\<rparr>) example_kwargs"
  let ?row = "snd (numbered_row ''3'')"
  let ?p = "\<lambda>n. build_prompt example_config (snd (numbered_row n)) ?cols @ '' '' @ output_format"
  let ?w1 = "\<lparr>model_state = 2, sent = [?p ''1'', ?p ''2'']\<rparr>"
  let ?w2 = "\<lparr>model_state = 3, sent = [?p ''1'', ?p ''2'', ?p ''3'']\<rparr>"
  let ?w3 = "\<lparr>model_state = 5, sent = [?p ''1'', ?p ''2'', ?p ''3'', ?p ''4'', ?p ''5'']\<rparr>"
  have x: "extract_security_incidents json_loads_examples ''Category: CAT2\<newline>Explanation: malware''
             = Inr \<lparr>Category = ''CAT2'', Explanation = ''malware''\<rparr>"
    by (simp add: text_eval)
  have 1: "concat [[numbered_row ''1'', numbered_row ''2'', numbered_row ''3''],
                   [numbered_row ''4'', numbered_row ''5'']]
             = [numbered_row ''1'', numbered_row ''2''] @ (''3'', ?row) # [numbered_row ''4'', numbered_row ''5'']"
    by (simp add: numbered_row_def)
  have 3: "''INC-3'' = (case ?row ''id'' of Some v \<Rightarrow> v | None \<Rightarrow> ''row_'' @ ''3'')"
    by (simp add: numbered_row_def)
  have 4: "process_rows example_config ?t ?cols ?params [numbered_row ''1'', numbered_row ''2''] []
             \<lparr>model_state = 0, sent = []\<rparr>
           = ([hint_result ''INC-1'' ''descricao: event 1'' ''CAT2'' ''malware'' 0 0,
               hint_result ''INC-2'' ''descricao: event 2'' ''CAT2'' ''malware'' 0 0], ?w1)"
    by (simp add: runner_eval x example_kwargs_def)
  have 5: "?t (build_prompt example_config ?row ?cols) ?row ?cols (?params\<lparr>kw_incident_id := ''INC-3''\<rparr>) ?w1
             = (Inl (ModelError ''connection refused''), ?w2)"
    by (simp add: runner_eval x example_kwargs_def)
  have 6: "process_rows example_config ?t ?cols ?params [numbered_row ''4'', numbered_row ''5''] [] ?w2
           = ([hint_result ''INC-4'' ''descricao: event 4'' ''CAT2'' ''malware'' 0 0,
               hint_result ''INC-5'' ''descricao: event 5'' ''CAT2'' ''malware'' 0 0], ?w3)"
    by (simp add: runner_eval x example_kwargs_def)
  have i: "build_incident_info ?row ?cols = ''descricao: event 3''"
    by (simp add: build_incident_info_def numbered_row_def)
  show ?thesis
    using row_isolation [OF 1 refl 3 4 5 6, THEN conjunct1] by (simp add: i)
qed

section \<open>Evaluating the techniques\<close>

text \<open>The definitions the simplifier unfolds to run a technique with the scripted model.\<close>

lemmas technique_eval =
  send_prompt_def example_env_def start_def get_or_def example_kwargs_def Let_def
  calculate_rouge_score_def lower_def lower_char_def
  validate_response_def mask_prompt_def build_incident_info_def example_row_def

lemma sub_cat2: "get_subcategories ''CAT2'' = [''malware'', ''ransomware'', ''trojan'', ''virus'', ''spyware'', ''rootkit'', ''infection'', ''malicious code'']"
  by (simp add: get_subcategories_def palavras_chave_def text_eval)

section \<open>One record per incident\<close>

text \<open>
  Whenever \<open>execute\<close> returns (no model call and no extraction raises), Progressive Hint with
  a ceiling of at least 0, Self Hint with a ceiling of at least 1 and Progressive
  Rectification with a ceiling of at least 0 return exactly one record, and its \<open>iteracao\<close>
  does not exceed the ceiling.
\<close>

lemma php_loop_one_record:
  assumes "php_loop env full_prompt informacoes incident_id max_hints limite_rouge i resposta_anterior w
             = (Inr rs, w')"
    and "int i < max_hints"
  shows "\<exists>categoria explicacao rouge k.
           rs = [hint_result incident_id informacoes categoria explicacao rouge k]
           \<and> int i < k \<and> k \<le> max_hints"
  using assms
proof (induction "nat max_hints - i" arbitrary: i resposta_anterior w)
  case 0
  then show ?case by simp
next
  case (Suc n)
  from Suc.prems(2) have c: "(int i < max_hints) = True" by simp
  note run = Suc.prems(1) [unfolded php_loop.simps [of _ _ _ _ _ _ i] c if_True]
  from run obtain anterior where a: "extract_security_incidents (json_loads env) resposta_anterior = Inr anterior"
    by (cases "extract_security_incidents (json_loads env) resposta_anterior") simp_all
  let ?hint = "(''Hint: The category is near: '' @ Category anterior) @ '' '' @ full_prompt"
  obtain r w1 where s: "send_prompt env ?hint ''php'' incident_id w = (r, w1)"
    by (cases "send_prompt env ?hint ''php'' incident_id w")
  from run a s obtain nova where r: "r = Inr nova" by (cases r) (simp_all add: Let_def)
  from run a s r obtain atual where x: "extract_security_incidents (json_loads env) nova = Inr atual"
    by (cases "extract_security_incidents (json_loads env) nova") (simp_all add: Let_def)
  show ?case
  proof (cases "int i + 1 = max_hints
      \<or> limite_rouge \<le> calculate_rouge_score env (Category anterior) (Category atual)")
    case True
    with run a s r x have "rs = [hint_result incident_id informacoes (Category atual) (Explanation atual)
        (calculate_rouge_score env (Category anterior) (Category atual)) (int i + 1)]"
      by (simp add: Let_def)
    moreover have "int i < int i + 1" "int i + 1 \<le> max_hints" using Suc.prems(2) by simp_all
    ultimately show ?thesis by blast
  next
    case False
    with run a s r x have rec: "php_loop env full_prompt informacoes incident_id max_hints limite_rouge
        (i + 1) nova w1 = (Inr rs, w')"
      by (simp add: Let_def)
    from False Suc.prems(2) have lt: "int (i + 1) < max_hints" by simp
    from Suc.hyps(2) have n: "n = nat max_hints - (i + 1)" by simp
    from Suc.hyps(1) [OF n rec lt] obtain categoria explicacao rouge k where
      "rs = [hint_result incident_id informacoes categoria explicacao rouge k]" "int (i + 1) < k" "k \<le> max_hints"
      by blast
    then have "rs = [hint_result incident_id informacoes categoria explicacao rouge k]
        \<and> int i < k \<and> k \<le> max_hints" by simp
    then show ?thesis by blast
  qed
qed

lemma progressive_hint_one_record:
  assumes "0 \<le> get_or (kw_max_hints kw) 4"
    and "progressive_hint_execute env prompt data_row columns kw w = (Inr rs, w')"
  shows "\<exists>categoria explicacao rouge k.
           rs = [hint_result (kw_incident_id kw) (build_incident_info data_row columns)
                   categoria explicacao rouge k]
           \<and> 0 \<le> k \<and> k \<le> get_or (kw_max_hints kw) 4"
proof -
  let ?fp = "prompt @ '' '' @ output_format"
  obtain r w1 where s: "send_prompt env ?fp ''php'' (kw_incident_id kw) w = (r, w1)"
    by (cases "send_prompt env ?fp ''php'' (kw_incident_id kw) w")
  from assms(2) s obtain resposta where r: "r = Inr resposta"
    by (cases r) (simp_all add: progressive_hint_execute_def Let_def)
  show ?thesis
  proof (cases "get_or (kw_max_hints kw) 4 = 0")
    case True
    with assms(2) s r obtain info where
      "extract_security_incidents (json_loads env) resposta = Inr info"
      by (cases "extract_security_incidents (json_loads env) resposta")
         (simp_all add: progressive_hint_execute_def Let_def)
    with assms(2) s r True have "rs = [hint_result (kw_incident_id kw) (build_incident_info data_row columns)
        (Category info) (Explanation info) 0 0]"
      by (simp add: progressive_hint_execute_def Let_def)
    with True show ?thesis by auto
  next
    case False
    with assms(1) have lt: "int 0 < get_or (kw_max_hints kw) 4" by simp
    from assms(2) s r False have "php_loop env ?fp (build_incident_info data_row columns) (kw_incident_id kw)
        (get_or (kw_max_hints kw) 4) (get_or (kw_limite_rouge kw) (9 / 10)) 0 resposta w1 = (Inr rs, w')"
      by (simp add: progressive_hint_execute_def Let_def)
    from php_loop_one_record [OF this lt] show ?thesis by force
  qed
qed


lemma shp_loop_one_record:
  assumes "shp_loop env prompt informacoes incident_id max_iter limite_qualidade i categoria_anterior
             plano_intermediario w = (Inr rs, w')"
    and "int i < max_iter"
  shows "\<exists>categoria explicacao rouge k.
           rs = [hint_result incident_id informacoes categoria explicacao rouge k]
           \<and> int i < k \<and> k \<le> max_iter"
  using assms
proof (induction "nat max_iter - i" arbitrary: i categoria_anterior plano_intermediario w)
  case 0
  then show ?case by simp
next
  case (Suc n)
  from Suc.prems(2) have c: "(int i < max_iter) = True" by simp
  note run = Suc.prems(1) [unfolded shp_loop.simps [of _ _ _ _ _ _ i] c if_True]
  let ?reflexao = "prompt @ '' '' @ plano_intermediario @ '' The category is: '' @ categoria_anterior
      @ '' '' @ output_format"
  obtain r w1 where s: "send_prompt env ?reflexao ''shp'' incident_id w = (r, w1)"
    by (cases "send_prompt env ?reflexao ''shp'' incident_id w")
  from run s obtain response where r: "r = Inr response" by (cases r) (simp_all add: Let_def)
  from run s r obtain incident where x: "extract_security_incidents (json_loads env) response = Inr incident"
    by (cases "extract_security_incidents (json_loads env) response") (simp_all add: Let_def)
  show ?case
  proof (cases "int i + 1 = max_iter
      \<or> limite_qualidade \<le> calculate_rouge_score env categoria_anterior (Category incident)")
    case True
    with run s r x have "rs = [hint_result incident_id informacoes (Category incident) (Explanation incident)
        (calculate_rouge_score env categoria_anterior (Category incident)) (int i + 1)]"
      by (simp add: Let_def)
    moreover have "int i < int i + 1" "int i + 1 \<le> max_iter" using Suc.prems(2) by simp_all
    ultimately show ?thesis by blast
  next
    case False
    let ?inicial = "prompt @ '' '' @ plano @ '' The category is: '' @ Category incident"
    obtain r2 w2 where s2: "send_prompt env ?inicial ''shp'' incident_id w1 = (r2, w2)"
      by (cases "send_prompt env ?inicial ''shp'' incident_id w1")
    from run s r x False s2 obtain plano_novo where r2: "r2 = Inr plano_novo"
      by (cases r2) (simp_all add: Let_def)
    from run s r x False s2 r2 have rec: "shp_loop env prompt informacoes incident_id max_iter
        limite_qualidade (i + 1) (Category incident) plano_novo w2 = (Inr rs, w')"
      by (simp add: Let_def)
    from False Suc.prems(2) have lt: "int (i + 1) < max_iter" by simp
    from Suc.hyps(2) have n: "n = nat max_iter - (i + 1)" by simp
    from Suc.hyps(1) [OF n rec lt] obtain categoria explicacao rouge k where
      "rs = [hint_result incident_id informacoes categoria explicacao rouge k]" "int (i + 1) < k" "k \<le> max_iter"
      by blast
    then have "rs = [hint_result incident_id informacoes categoria explicacao rouge k]
        \<and> int i < k \<and> k \<le> max_iter" by simp
    then show ?thesis by blast
  qed
qed

lemma self_hint_one_record:
  assumes "1 \<le> get_or (kw_max_iter kw) 4"
    and "self_hint_execute env prompt data_row columns kw w = (Inr rs, w')"
  shows "\<exists>categoria explicacao rouge k.
           rs = [hint_result (kw_incident_id kw) (build_incident_info data_row columns)
                   categoria explicacao rouge k]
           \<and> 1 \<le> k \<and> k \<le> get_or (kw_max_iter kw) 4"
proof -
  let ?p1 = "prompt @ '' '' @ plano"
  obtain r1 w1 where s1: "send_prompt env ?p1 ''shp'' (kw_incident_id kw) w = (r1, w1)"
    by (cases "send_prompt env ?p1 ''shp'' (kw_incident_id kw) w")
  from assms(2) s1 obtain plano_intermediario where r1: "r1 = Inr plano_intermediario"
    by (cases r1) (simp_all add: self_hint_execute_def Let_def)
  obtain r2 w2 where s2: "send_prompt env (?p1 @ '' '' @ output_format) ''shp'' (kw_incident_id kw) w1 = (r2, w2)"
    by (cases "send_prompt env (?p1 @ '' '' @ output_format) ''shp'' (kw_incident_id kw) w1")
  from assms(2) s1 r1 s2 obtain response where r2: "r2 = Inr response"
    by (cases r2) (simp_all add: self_hint_execute_def Let_def)
  from assms(2) s1 r1 s2 r2 obtain inicial where
    x: "extract_security_incidents (json_loads env) response = Inr inicial"
    by (cases "extract_security_incidents (json_loads env) response")
       (simp_all add: self_hint_execute_def Let_def)
  from assms(2) s1 r1 s2 r2 x have run: "shp_loop env prompt (build_incident_info data_row columns)
      (kw_incident_id kw) (get_or (kw_max_iter kw) 4) (get_or (kw_limite_qualidade kw) (9 / 10)) 0
      (Category inicial) plano_intermediario w2 = (Inr rs, w')"
    by (simp add: self_hint_execute_def Let_def)
  from assms(1) have lt: "int 0 < get_or (kw_max_iter kw) 4" by simp
  from shp_loop_one_record [OF run lt] obtain categoria explicacao rouge k where
    "rs = [hint_result (kw_incident_id kw) (build_incident_info data_row columns) categoria explicacao rouge k]"
    "int 0 < k" "k \<le> get_or (kw_max_iter kw) 4" by blast
  then have "rs = [hint_result (kw_incident_id kw) (build_incident_info data_row columns) categoria explicacao rouge k]
      \<and> 1 \<le> k \<and> k \<le> get_or (kw_max_iter kw) 4" by simp
  then show ?thesis by blast
qed

lemma prp_for_returned:
  "prp_for env prompt informacoes incident_id limite_qualidade explicacao attempt subcategory
     categoria_atual categoria_rejectada w = (Inr (Returned rs), w') \<Longrightarrow>
   \<exists>categoria qualidade.
      rs = [rectification_result incident_id informacoes categoria explicacao qualidade (int attempt + 1)]"
proof (induction subcategory arbitrary: categoria_atual categoria_rejectada w)
  case Nil
  then show ?case by simp
next
  case (Cons subcat subcategory)
  note run = Cons.prems [unfolded prp_for.simps Let_def]
  obtain r1 w1 where m: "mask_prompt env prompt subcat incident_id w = (r1, w1)"
    by (cases "mask_prompt env prompt subcat incident_id w")
  from run m obtain mascarado where r1: "r1 = Inr mascarado" by (cases r1) simp_all
  obtain r2 w2 where v: "validate_response env mascarado categoria_atual subcat incident_id w1 = (r2, w2)"
    by (cases "validate_response env mascarado categoria_atual subcat incident_id w1")
  from run m r1 v obtain validada where r2: "r2 = Inr validada" by (cases r2) simp_all
  show ?case
  proof (cases "limite_qualidade \<le> calculate_rouge_score env categoria_atual validada")
    case True
    with run m r1 v r2 have "rs = [rectification_result incident_id informacoes validada explicacao
        (calculate_rouge_score env categoria_atual validada) (int attempt + 1)]" by simp
    then show ?thesis by blast
  next
    case False
    let ?rect = "build_rectification_prompt prompt ('','' @ validada)"
    obtain r3 w3 where s: "send_prompt env ?rect ''prp'' incident_id w2 = (r3, w3)"
      by (cases "send_prompt env ?rect ''prp'' incident_id w2")
    from run m r1 v r2 False s obtain response where r3: "r3 = Inr response" by (cases r3) simp_all
    from run m r1 v r2 False s r3 obtain incident where
      x: "extract_security_incidents (json_loads env) response = Inr incident"
      by (cases "extract_security_incidents (json_loads env) response") simp_all
    from run m r1 v r2 False s r3 x have "prp_for env prompt informacoes incident_id limite_qualidade
        explicacao attempt subcategory (Category incident) ('','' @ validada) w3 = (Inr (Returned rs), w')"
      by simp
    from Cons.IH [OF this] show ?thesis .
  qed
qed

lemma prp_while_one_record:
  assumes "prp_while env prompt informacoes incident_id max_iter limite_qualidade explicacao attempt
             categoria_atual categoria_rejectada w = (Inr rs, w')"
    and "int attempt \<le> max_iter"
  shows "\<exists>categoria qualidade k.
           rs = [rectification_result incident_id informacoes categoria explicacao qualidade k]
           \<and> int attempt \<le> k \<and> k \<le> max_iter"
  using assms
proof (induction "nat max_iter - attempt" arbitrary: attempt categoria_atual categoria_rejectada w)
  case 0
  then have "\<not> int attempt < max_iter" by linarith
  with "0.prems" have "rs = [rectification_result incident_id informacoes categoria_atual explicacao 0 max_iter]"
    and "int attempt = max_iter"
    by (simp_all add: prp_while.simps [of _ _ _ _ _ _ _ attempt])
  then have "rs = [rectification_result incident_id informacoes categoria_atual explicacao 0 max_iter]
    \<and> int attempt \<le> max_iter \<and> max_iter \<le> max_iter" by simp
  then show ?case by blast
next
  case (Suc n)
  then have lt: "int attempt < max_iter" by linarith
  then have c: "(int attempt < max_iter) = True" by simp
  note run = Suc.prems(1) [unfolded prp_while.simps [of _ _ _ _ _ _ _ attempt] c if_True]
  obtain r w1 where f: "prp_for env prompt informacoes incident_id limite_qualidade explicacao attempt
      (get_subcategories categoria_atual) categoria_atual categoria_rejectada w = (r, w1)"
    by (cases "prp_for env prompt informacoes incident_id limite_qualidade explicacao attempt
      (get_subcategories categoria_atual) categoria_atual categoria_rejectada w")
  from run f obtain ex where r: "r = Inr ex" by (cases r) simp_all
  show ?case
  proof (cases ex)
    case (Returned resultados)
    with run f r have "resultados = rs" "w1 = w'" by simp_all
    with f r Returned have "prp_for env prompt informacoes incident_id limite_qualidade explicacao attempt
      (get_subcategories categoria_atual) categoria_atual categoria_rejectada w = (Inr (Returned rs), w')"
      by simp
    from prp_for_returned [OF this] obtain categoria qualidade where
      "rs = [rectification_result incident_id informacoes categoria explicacao qualidade (int attempt + 1)]"
      by blast
    moreover have "int attempt \<le> int attempt + 1" "int attempt + 1 \<le> max_iter" using lt by simp_all
    ultimately show ?thesis by blast
  next
    case (Exhausted categoria rejeitada)
    with run f r have rec: "prp_while env prompt informacoes incident_id max_iter limite_qualidade
        explicacao (attempt + 1) categoria rejeitada w1 = (Inr rs, w')" by simp
    from lt have le: "int (attempt + 1) \<le> max_iter" by simp
    from Suc.hyps(2) have n: "n = nat max_iter - (attempt + 1)" by simp
    from Suc.hyps(1) [OF n rec le] obtain cat q k where
      "rs = [rectification_result incident_id informacoes cat explicacao q k]"
      "int (attempt + 1) \<le> k" "k \<le> max_iter" by blast
    then have "rs = [rectification_result incident_id informacoes cat explicacao q k]
        \<and> int attempt \<le> k \<and> k \<le> max_iter" by simp
    then show ?thesis by blast
  qed
qed

lemma progressive_rectification_one_record:
  assumes "0 \<le> get_or (kw_max_iter kw) 4"
    and "progressive_rectification_execute env prompt data_row columns kw w = (Inr rs, w')"
  shows "\<exists>categoria explicacao qualidade k.
           rs = [rectification_result (kw_incident_id kw) (build_incident_info data_row columns)
                   categoria explicacao qualidade k]
           \<and> 0 \<le> k \<and> k \<le> get_or (kw_max_iter kw) 4"
proof -
  let ?p = "prompt @ '' '' @ output_format"
  obtain r w1 where s: "send_prompt env ?p ''prp'' (kw_incident_id kw) w = (r, w1)"
    by (cases "send_prompt env ?p ''prp'' (kw_incident_id kw) w")
  from assms(2) s obtain r_0 where r: "r = Inr r_0"
    by (cases r) (simp_all add: progressive_rectification_execute_def Let_def)
  from assms(2) s r obtain a_0 where x: "extract_security_incidents (json_loads env) r_0 = Inr a_0"
    by (cases "extract_security_incidents (json_loads env) r_0")
       (simp_all add: progressive_rectification_execute_def Let_def)
  from assms(2) s r x have run: "prp_while env prompt (build_incident_info data_row columns) (kw_incident_id kw)
      (get_or (kw_max_iter kw) 4) (get_or (kw_limite_qualidade kw) (9 / 10)) (Explanation a_0) 0
      (Category a_0) [] w1 = (Inr rs, w')"
    by (simp add: progressive_rectification_execute_def Let_def)
  from assms(1) have le: "int 0 \<le> get_or (kw_max_iter kw) 4" by simp
  from prp_while_one_record [OF run le] obtain categoria qualidade k where
    "rs = [rectification_result (kw_incident_id kw) (build_incident_info data_row columns) categoria
             (Explanation a_0) qualidade k]" "int 0 \<le> k" "k \<le> get_or (kw_max_iter kw) 4" by blast
  then have "rs = [rectification_result (kw_incident_id kw) (build_incident_info data_row columns) categoria
             (Explanation a_0) qualidade k] \<and> 0 \<le> k \<and> k \<le> get_or (kw_max_iter kw) 4" by simp
  then show ?thesis by blast
qed

section \<open>Self Hint without iterations\<close>

text \<open>
  Claim C2 fails for Self Hint at the ceiling 0. With \<open>max_iter = 0\<close>, Self Hint sends its
  two first prompts, the loop \<open>for i in range(max_iter)\<close> has no turn, and \<open>execute\<close> returns the
  empty list: no record for the incident, where the claim promises exactly one. Progressive
  Hint tests \<open>max_hints == 0\<close> and Progressive Rectification builds its record after the
  loop; Self Hint has neither.
\<close>

theorem self_hint_zero_iterations:
  assumes "kw_max_iter kw = Some 0"
    and "model_send env (model_state w) (prompt @ '' '' @ plano) ''shp'' (kw_incident_id kw)
           = (Inr plano_intermediario, m1)"
    and "model_send env m1 ((prompt @ '' '' @ plano) @ '' '' @ output_format) ''shp'' (kw_incident_id kw)
           = (Inr response, m2)"
    and "extract_security_incidents (json_loads env) response = Inr inicial"
  shows "self_hint_execute env prompt data_row columns kw w =
           (Inr [], \<lparr>model_state = m2,
                     sent = sent w @ [prompt @ '' '' @ plano,
                                      (prompt @ '' '' @ plano) @ '' '' @ output_format]\<rparr>)"
  using assms
  by (simp add: self_hint_execute_def send_prompt_def get_or_def Let_def shp_loop.simps [of _ _ _ _ 0])

text \<open>A run with a model that has the plan and a classification ready.\<close>

theorem self_hint_zero_iterations_witness:
  "fst (self_hint_execute example_env ''incident'' example_row [''descricao'']
          (example_kwargs\<lparr>kw_max_iter := Some 0\<rparr>)
          (start [''a plan'', ''Category: CAT2\<newline>Explanation: ransomware'']))
     = Inr []"
proof -
  let ?kw = "example_kwargs\<lparr>kw_max_iter := Some 0\<rparr>"
  let ?w = "start [''a plan'', ''Category: CAT2\<newline>Explanation: ransomware'']"
  have 1: "kw_max_iter ?kw = Some 0" by simp
  have 2: "model_send example_env (model_state ?w) (''incident'' @ '' '' @ plano) ''shp'' (kw_incident_id ?kw)
             = (Inr ''a plan'', [''Category: CAT2\<newline>Explanation: ransomware''])"
    by (simp add: example_env_def start_def)
  have 3: "model_send example_env [''Category: CAT2\<newline>Explanation: ransomware'']
             ((''incident'' @ '' '' @ plano) @ '' '' @ output_format) ''shp'' (kw_incident_id ?kw)
             = (Inr ''Category: CAT2\<newline>Explanation: ransomware'', [])"
    by (simp add: example_env_def)
  have 4: "extract_security_incidents (json_loads example_env) ''Category: CAT2\<newline>Explanation: ransomware''
             = Inr \<lparr>Category = ''CAT2'', Explanation = ''ransomware''\<rparr>"
    by (simp add: example_env_def text_eval)
  show ?thesis
    using self_hint_zero_iterations [OF 1 2 3 4, of example_row "[''descricao'']"] by simp
qed

section \<open>The rejected categories of Progressive Rectification\<close>

text \<open>
  Claim C1 fails on the code. The statement \<open>categoria_rejectada = ',' + categoria_atual\<close>
  replaces the variable, set to the empty text before the loops, where the claim (and the
  leading comma) asks for \<open>+=\<close>. In the run below the quality check fails twice, with the
  candidates \<open>CAT3\<close> and then \<open>CAT5\<close> rejected; the second rectification prompt is built from
  \<open>,CAT5\<close> alone, not from \<open>,CAT3,CAT5\<close>. The prompts sent, in order, are the first prompt
  and three rounds of masking and validation, with a rectification after each of the first
  two.
\<close>

theorem rectification_lists_latest_only:
  "sent (snd (progressive_rectification_execute example_env ''incident'' example_row [''descricao'']
          example_kwargs
          (start [''Category: CAT2\<newline>Explanation: e0'',
                  ''m1'', ''Category: CAT3\<newline>Explanation: e1'', ''Category: CAT4\<newline>Explanation: e2'',
                  ''m2'', ''Category: CAT5\<newline>Explanation: e3'', ''Category: CAT1\<newline>Explanation: e4'',
                  ''m3'', ''Category: CAT1\<newline>Explanation: e5''])))
     = [''incident '' @ output_format,
        mascarar ''incident'' ''malware'',
        prompt_verification ''m1'' ''CAT2'' ''malware'',
        build_rectification_prompt ''incident'' '',CAT3'',
        mascarar ''incident'' ''ransomware'',
        prompt_verification ''m2'' ''CAT4'' ''ransomware'',
        build_rectification_prompt ''incident'' '',CAT5'',
        mascarar ''incident'' ''trojan'',
        prompt_verification ''m3'' ''CAT1'' ''trojan'']
   \<and> build_rectification_prompt ''incident'' '',CAT5'' \<noteq> build_rectification_prompt ''incident'' '',CAT3,CAT5''"
proof -
  have x: "extract_security_incidents json_loads_examples ''Category: CAT2\<newline>Explanation: e0''
             = Inr \<lparr>Category = ''CAT2'', Explanation = ''e0''\<rparr>"
    "extract_security_incidents json_loads_examples ''Category: CAT3\<newline>Explanation: e1''
             = Inr \<lparr>Category = ''CAT3'', Explanation = ''e1''\<rparr>"
    "extract_security_incidents json_loads_examples ''Category: CAT4\<newline>Explanation: e2''
             = Inr \<lparr>Category = ''CAT4'', Explanation = ''e2''\<rparr>"
    "extract_security_incidents json_loads_examples ''Category: CAT5\<newline>Explanation: e3''
             = Inr \<lparr>Category = ''CAT5'', Explanation = ''e3''\<rparr>"
    "extract_security_incidents json_loads_examples ''Category: CAT1\<newline>Explanation: e4''
             = Inr \<lparr>Category = ''CAT1'', Explanation = ''e4''\<rparr>"
    "extract_security_incidents json_loads_examples ''Category: CAT1\<newline>Explanation: e5''
             = Inr \<lparr>Category = ''CAT1'', Explanation = ''e5''\<rparr>"
    by (simp_all add: text_eval)
  have run: "sent (snd (progressive_rectification_execute example_env ''incident'' example_row [''descricao'']
          example_kwargs
          (start [''Category: CAT2\<newline>Explanation: e0'',
                  ''m1'', ''Category: CAT3\<newline>Explanation: e1'', ''Category: CAT4\<newline>Explanation: e2'',
                  ''m2'', ''Category: CAT5\<newline>Explanation: e3'', ''Category: CAT1\<newline>Explanation: e4'',
                  ''m3'', ''Category: CAT1\<newline>Explanation: e5''])))
     = [''incident '' @ output_format,
        mascarar ''incident'' ''malware'',
        prompt_verification ''m1'' ''CAT2'' ''malware'',
        build_rectification_prompt ''incident'' '',CAT3'',
        mascarar ''incident'' ''ransomware'',
        prompt_verification ''m2'' ''CAT4'' ''ransomware'',
        build_rectification_prompt ''incident'' '',CAT5'',
        mascarar ''incident'' ''trojan'',
        prompt_verification ''m3'' ''CAT1'' ''trojan'']"
    by (simp add: progressive_rectification_execute_def technique_eval x sub_cat2
        prp_while.simps [of _ _ _ _ _ _ _ 0] between_def)
  have "build_rectification_prompt ''incident'' '',CAT5'' \<noteq> build_rectification_prompt ''incident'' '',CAT3,CAT5''"
    by (simp add: build_rectification_prompt_def)
  with run show ?thesis by simp
qed

section \<open>Hypothesis Testing\<close>

text \<open>The twelve categories, and the steps of the loop.\<close>

lemma categories_eq:
  "categories = [''CAT1'', ''CAT2'', ''CAT3'', ''CAT4'', ''CAT5'', ''CAT6'', ''CAT7'', ''CAT8'',
                 ''CAT9'', ''CAT10'', ''CAT11'', ''CAT12'']"
  by (simp add: categories_def upt_rec str_nat.simps digit_char_def)

lemma length_categories: "length categories = 12"
  by (simp add: categories_eq)

lemma htp_while_exit:
  assumes "\<not> (i < 12 \<and> int i < max_iter)"
  shows "htp_while env prompt incident kw max_iter limite i (Some ident) w
     = (Inr [hypothesis_result ident incident ''UNKNOWN'' nenhuma_categoria ''ALL'' 0 max_iter], w)"
proof -
  from assms have c: "(i < length categories \<and> int i < max_iter) = False"
    by (simp add: length_categories)
  show ?thesis
    by (subst htp_while.simps) (simp only: c if_False option.case)
qed

lemma htp_while_step:
  assumes "i < 12" and "int i < max_iter"
    and "send_prompt env (htp_prompt prompt i) ''htp'' (kw_incident_id kw) w = (Inr h, w1)"
    and "extract_security_incidents (json_loads env) h = Inr info"
  shows "htp_while env prompt incident kw max_iter limite i st w =
     (if limite \<le> calculate_rouge_score env (Category info) (categories ! i) then
        (Inr [hypothesis_result (kw_incident_id kw) incident (Category info) (Explanation info)
                (categories ! i) (calculate_rouge_score env (Category info) (categories ! i))
                (int i + 1)], w1)
      else htp_while env prompt incident kw max_iter limite (i + 1) (Some (kw_incident_id kw)) w1)"
  using assms by (subst htp_while.simps) (simp add: length_categories Let_def)

text \<open>
  The loop from the category of index \<open>i\<close>, when the model answers the prompts of the next
  categories with \<open>hs\<close>, each with an extraction, and every score but the last is below the
  threshold.
\<close>

lemma htp_while_feed:
  assumes "hs \<noteq> []"
    and "i + length hs \<le> 12" and "int (i + length hs) \<le> max_iter"
    and "feed env (map (htp_prompt prompt) [i..<i + length hs]) ''htp'' (kw_incident_id kw) w
           = (map Inr hs, w')"
    and "map (extract_security_incidents (json_loads env)) hs = map Inr infos"
    and "\<forall>j < length hs - 1.
           calculate_rouge_score env (Category (infos ! j)) (categories ! (i + j)) < limite"
    and "limite \<le> calculate_rouge_score env (Category (last infos)) (categories ! (i + length hs - 1))
         \<or> i + length hs = 12 \<or> int (i + length hs) = max_iter"
  shows "htp_while env prompt incident kw max_iter limite i st w =
     (Inr [if limite \<le> calculate_rouge_score env (Category (last infos)) (categories ! (i + length hs - 1))
           then hypothesis_result (kw_incident_id kw) incident (Category (last infos))
                  (Explanation (last infos)) (categories ! (i + length hs - 1))
                  (calculate_rouge_score env (Category (last infos)) (categories ! (i + length hs - 1)))
                  (int (i + length hs))
           else hypothesis_result (kw_incident_id kw) incident ''UNKNOWN'' nenhuma_categoria ''ALL'' 0
                  max_iter], w')"
  using assms
proof (induction hs arbitrary: i w infos st)
  case Nil
  then show ?case by simp
next
  case (Cons h hs)
  from Cons.prems(5) obtain info infos' where infos: "infos = info # infos'"
    and ext: "extract_security_incidents (json_loads env) h = Inr info"
    and exts: "map (extract_security_incidents (json_loads env)) hs = map Inr infos'"
    by (cases infos) auto
  have upt: "[i..<i + length (h # hs)] = i # [Suc i..<Suc i + length hs]"
    by (simp add: upt_rec)
  obtain r w1 where send: "send_prompt env (htp_prompt prompt i) ''htp'' (kw_incident_id kw) w = (r, w1)"
    by (cases "send_prompt env (htp_prompt prompt i) ''htp'' (kw_incident_id kw) w")
  obtain rs w2 where rest: "feed env (map (htp_prompt prompt) [Suc i..<Suc i + length hs]) ''htp''
      (kw_incident_id kw) w1 = (rs, w2)"
    by (cases "feed env (map (htp_prompt prompt) [Suc i..<Suc i + length hs]) ''htp'' (kw_incident_id kw) w1")
  from Cons.prems(4) send rest have r: "r = Inr h" and rs: "rs = map Inr hs" and w2: "w2 = w'"
    unfolding upt by simp_all
  have i: "i < 12" "int i < max_iter" using Cons.prems(2,3) by simp_all
  note step = htp_while_step [OF i send [unfolded r] ext, of incident limite st]
  show ?case
  proof (cases "hs = []")
    case True
    with rest w2 have w1: "w1 = w'" by simp
    from True exts have l: "last infos = info" by (simp add: infos)
    show ?thesis
    proof (cases "limite \<le> calculate_rouge_score env (Category info) (categories ! i)")
      case yes: True
      then show ?thesis using step True l w1 by (simp add: ac_simps)
    next
      case no: False
      with Cons.prems(7) True l have "i + 1 = 12 \<or> int (i + 1) = max_iter" by simp
      then have "\<not> (i + 1 < 12 \<and> int (i + 1) < max_iter)" by auto
      from htp_while_exit [OF this] have
        "htp_while env prompt incident kw max_iter limite (i + 1) (Some (kw_incident_id kw)) w1
           = (Inr [hypothesis_result (kw_incident_id kw) incident ''UNKNOWN'' nenhuma_categoria ''ALL'' 0
                     max_iter], w1)" .
      then show ?thesis using step no True l w1 by simp
    qed
  next
    case False
    then have lens: "0 < length hs" by simp
    from Cons.prems(6) [rule_format, of 0] lens
    have below: "calculate_rouge_score env (Category info) (categories ! i) < limite"
      by (simp add: infos)
    have infos'_ne: "infos' \<noteq> []" using exts False by (cases infos') auto
    then have l: "last infos = last infos'" by (simp add: infos)
    have p2: "Suc i + length hs \<le> 12" and p3: "int (Suc i + length hs) \<le> max_iter"
      using Cons.prems(2,3) by simp_all
    have p4: "feed env (map (htp_prompt prompt) [Suc i..<Suc i + length hs]) ''htp'' (kw_incident_id kw) w1
                = (map Inr hs, w')"
      using rest rs w2 by simp
    have p6: "\<forall>j < length hs - 1.
        calculate_rouge_score env (Category (infos' ! j)) (categories ! (Suc i + j)) < limite"
    proof (intro allI impI)
      fix j assume "j < length hs - 1"
      then have "Suc j < length (h # hs) - 1" by simp
      from Cons.prems(6) [rule_format, OF this] show
        "calculate_rouge_score env (Category (infos' ! j)) (categories ! (Suc i + j)) < limite"
        by (simp add: infos)
    qed
    have idx: "Suc i + length hs - 1 = i + length (h # hs) - 1" by simp
    have p7: "limite \<le> calculate_rouge_score env (Category (last infos')) (categories ! (Suc i + length hs - 1))
         \<or> Suc i + length hs = 12 \<or> int (Suc i + length hs) = max_iter"
      using Cons.prems(7) unfolding l idx by simp
    from Cons.IH [OF False p2 p3 p4 exts p6 p7, of "Some (kw_incident_id kw)"]
    show ?thesis using step below unfolding l idx by simp
  qed
qed


lemma feed_sent:
  "feed env ps mode incident_id w = (rs, w') \<Longrightarrow> sent w' = sent w @ ps \<and> length rs = length ps"
proof (induction ps arbitrary: w rs w')
  case Nil
  then show ?case by simp
next
  case (Cons p ps)
  obtain r w1 where s: "send_prompt env p mode incident_id w = (r, w1)"
    by (cases "send_prompt env p mode incident_id w")
  obtain rs' w2 where f: "feed env ps mode incident_id w1 = (rs', w2)"
    by (cases "feed env ps mode incident_id w1")
  from s have "sent w1 = sent w @ [p]"
    by (auto simp: send_prompt_def split: prod.splits)
  with Cons.IH [OF f] Cons.prems s f show ?case by auto
qed

lemma categories_nth:
  assumes "1 \<le> k" and "k \<le> 12"
  shows "categories ! (k - 1) = ''CAT'' @ str_nat k"
proof -
  from assms have "[1..<13] ! (k - 1) = 1 + (k - 1)" by (intro nth_upt) simp
  with assms show ?thesis by (simp add: categories_def)
qed

text \<open>
  With a ceiling of 0 or less the body of the loop never runs, and the record after the loop
  reads the variable \<open>incident_id\<close> that only the body assigns.
\<close>

lemma hypothesis_testing_unbound:
  "get_or (kw_max_iter kw) 12 \<le> 0 \<Longrightarrow>
   \<exists>m. hypothesis_testing_execute env prompt data_row columns kw w = (Inl (UnboundLocalError m), w)"
  by (subst hypothesis_testing_execute_def, subst htp_while.simps) (simp add: Let_def)

text \<open>
  Claim C3, as stated, fails: when no category is confirmed, the record carries
  \<open>iteracao = max_iter\<close>, which is 12 only under the default. With \<open>max_iter = 3\<close> and three
  responses that confirm nothing, the record has \<open>iteracao\<close> 3.
\<close>

theorem hypothesis_testing_iteration_counterexample:
  "fst (hypothesis_testing_execute example_env ''incident'' example_row [''descricao'']
          (example_kwargs\<lparr>kw_max_iter := Some 3\<rparr>)
          (start [''Category: UNKNOWN\<newline>Explanation: UNKNOWN'',
                  ''Category: UNKNOWN\<newline>Explanation: UNKNOWN'',
                  ''Category: UNKNOWN\<newline>Explanation: UNKNOWN'']))
     = Inr [hypothesis_result ''INC-1'' ''descricao: server encrypted'' ''UNKNOWN'' nenhuma_categoria
              ''ALL'' 0 3]
   \<and> map_of (hypothesis_result ''INC-1'' ''descricao: server encrypted'' ''UNKNOWN'' nenhuma_categoria
              ''ALL'' 0 3) ''iteracao'' = Some (VInt 3)
   \<and> VInt 3 \<noteq> VInt 12"
proof -
  have x: "extract_security_incidents json_loads_examples ''Category: UNKNOWN\<newline>Explanation: UNKNOWN''
             = Inr \<lparr>Category = ''UNKNOWN'', Explanation = ''UNKNOWN''\<rparr>"
    by (simp add: text_eval)
  have s: "lower ''UNKNOWN'' \<noteq> lower ''CAT1''" "lower ''UNKNOWN'' \<noteq> lower ''CAT2''"
    "lower ''UNKNOWN'' \<noteq> lower ''CAT3''"
    by (simp_all add: lower_def lower_char_def between_def)
  have c: "categories ! 0 = ''CAT1''" "categories ! Suc 0 = ''CAT2''" "categories ! Suc (Suc 0) = ''CAT3''"
    by (simp_all add: categories_eq)
  have n: "length categories = 12" by (simp add: categories_eq)
  have "fst (hypothesis_testing_execute example_env ''incident'' example_row [''descricao'']
          (example_kwargs\<lparr>kw_max_iter := Some 3\<rparr>)
          (start [''Category: UNKNOWN\<newline>Explanation: UNKNOWN'',
                  ''Category: UNKNOWN\<newline>Explanation: UNKNOWN'',
                  ''Category: UNKNOWN\<newline>Explanation: UNKNOWN'']))
     = Inr [hypothesis_result ''INC-1'' ''descricao: server encrypted'' ''UNKNOWN'' nenhuma_categoria
              ''ALL'' 0 3]"
    by (simp add: hypothesis_testing_execute_def htp_while.simps Let_def
        send_prompt_def example_env_def start_def get_or_def example_kwargs_def
        calculate_rouge_score_def build_incident_info_def example_row_def x s c n)
  then show ?thesis by (simp add: hypothesis_result_def)
qed

text \<open>
  Claim C3, amended. Let \<open>max_iter\<close> be at least 1 and let the model answer the prompts of the
  first \<open>k\<close> categories (\<open>k\<close> at most 12 and at most \<open>max_iter\<close>), each response with an
  extraction, the scores of the first \<open>k - 1\<close> below the threshold. If the score of the
  \<open>k\<close>-th, between the extracted category and \<open>CATk\<close>, reaches the threshold, \<open>execute\<close> returns
  exactly one record, with the extracted category, \<open>categoria_testada = CATk\<close>, that score
  and \<open>iteracao = k\<close>. If it does not and \<open>k\<close> is the last category tested (12, or
  \<open>max_iter\<close>), \<open>execute\<close> returns exactly one record with \<open>categoria = UNKNOWN\<close>,
  \<open>categoria_testada = ALL\<close> and \<open>iteracao = max_iter\<close>. In both cases the prompts sent are
  those of the first \<open>k\<close> categories and no other.
\<close>

theorem hypothesis_testing_one_record:
  assumes "1 \<le> k" and "k \<le> 12" and "int k \<le> get_or (kw_max_iter kw) 12"
    and "feed env (map (htp_prompt prompt) [0..<k]) ''htp'' (kw_incident_id kw) w = (map Inr hs, w')"
    and "map (extract_security_incidents (json_loads env)) hs = map Inr infos"
    and "\<forall>j < k - 1. calculate_rouge_score env (Category (infos ! j)) (categories ! j)
                        < get_or (kw_limite_qualidade kw) (9 / 10)"
    and "get_or (kw_limite_qualidade kw) (9 / 10)
           \<le> calculate_rouge_score env (Category (last infos)) (categories ! (k - 1))
         \<or> k = 12 \<or> int k = get_or (kw_max_iter kw) 12"
  shows "hypothesis_testing_execute env prompt data_row columns kw w =
     (Inr [if get_or (kw_limite_qualidade kw) (9 / 10)
                \<le> calculate_rouge_score env (Category (last infos)) (categories ! (k - 1))
           then hypothesis_result (kw_incident_id kw) (build_incident_info data_row columns)
                  (Category (last infos)) (Explanation (last infos)) (categories ! (k - 1))
                  (calculate_rouge_score env (Category (last infos)) (categories ! (k - 1))) (int k)
           else hypothesis_result (kw_incident_id kw) (build_incident_info data_row columns)
                  ''UNKNOWN'' nenhuma_categoria ''ALL'' 0 (get_or (kw_max_iter kw) 12)], w')
     \<and> sent w' = sent w @ map (htp_prompt prompt) [0..<k]
     \<and> categories ! (k - 1) = ''CAT'' @ str_nat k"
proof -
  from feed_sent [OF assms(4)] have len: "length hs = k"
    and sent: "sent w' = sent w @ map (htp_prompt prompt) [0..<k]" by simp_all
  from len assms(1) have ne: "hs \<noteq> []" by auto
  have "htp_while env prompt (build_incident_info data_row columns) kw (get_or (kw_max_iter kw) 12)
          (get_or (kw_limite_qualidade kw) (9 / 10)) 0 None w =
     (Inr [if get_or (kw_limite_qualidade kw) (9 / 10)
                \<le> calculate_rouge_score env (Category (last infos)) (categories ! (0 + length hs - 1))
           then hypothesis_result (kw_incident_id kw) (build_incident_info data_row columns)
                  (Category (last infos)) (Explanation (last infos)) (categories ! (0 + length hs - 1))
                  (calculate_rouge_score env (Category (last infos)) (categories ! (0 + length hs - 1)))
                  (int (0 + length hs))
           else hypothesis_result (kw_incident_id kw) (build_incident_info data_row columns)
                  ''UNKNOWN'' nenhuma_categoria ''ALL'' 0 (get_or (kw_max_iter kw) 12)], w')"
    using assms(2-7) by (intro htp_while_feed [OF ne]) (simp_all add: len)
  then show ?thesis
    using sent categories_nth [OF assms(1,2)] by (simp add: hypothesis_testing_execute_def Let_def len)
qed

text \<open>
  Two runs: the second category is confirmed and the third response is never asked for; and,
  with \<open>max_iter = 2\<close>, nothing is confirmed.
\<close>

theorem hypothesis_testing_one_record_witness:
  "hypothesis_testing_execute example_env ''incident'' example_row [''descricao''] example_kwargs
       (start [''Category: UNKNOWN\<newline>Explanation: UNKNOWN'',
               ''Category: same CAT2\<newline>Explanation: keywords match'', ''unused''])
     = (Inr [hypothesis_result ''INC-1'' ''descricao: server encrypted'' ''CAT2'' ''keywords match''
               ''CAT2'' 1 2],
        \<lparr>model_state = [''unused''], sent = [htp_prompt ''incident'' 0, htp_prompt ''incident'' 1]\<rparr>)
   \<and> hypothesis_testing_execute example_env ''incident'' example_row [''descricao'']
       (example_kwargs\<lparr>kw_max_iter := Some 2\<rparr>)
       (start [''Category: UNKNOWN\<newline>Explanation: UNKNOWN'',
               ''Category: UNKNOWN\<newline>Explanation: UNKNOWN'', ''unused''])
     = (Inr [hypothesis_result ''INC-1'' ''descricao: server encrypted'' ''UNKNOWN'' nenhuma_categoria
               ''ALL'' 0 2],
        \<lparr>model_state = [''unused''], sent = [htp_prompt ''incident'' 0, htp_prompt ''incident'' 1]\<rparr>)"
proof -
  let ?u = "''Category: UNKNOWN\<newline>Explanation: UNKNOWN''"
  let ?c = "''Category: same CAT2\<newline>Explanation: keywords match''"
  let ?w' = "\<lparr>model_state = [''unused''], sent = [htp_prompt ''incident'' 0, htp_prompt ''incident'' 1]\<rparr>"
  let ?kw2 = "example_kwargs\<lparr>kw_max_iter := Some 2\<rparr>"
  have x: "extract_security_incidents json_loads_examples ?u
             = Inr \<lparr>Category = ''UNKNOWN'', Explanation = ''UNKNOWN''\<rparr>"
    "extract_security_incidents json_loads_examples ?c
             = Inr \<lparr>Category = ''CAT2'', Explanation = ''keywords match''\<rparr>"
    by (simp_all add: text_eval)
  have u: "[0..<2] = [0, Suc 0]" by (simp add: upt_rec)
  have k: "(1::nat) \<le> 2" "(2::nat) \<le> 12" "int 2 \<le> get_or (kw_max_iter example_kwargs) 12"
    "int 2 \<le> get_or (kw_max_iter ?kw2) 12"
    by (simp_all add: get_or_def example_kwargs_def)
  have f1: "feed example_env (map (htp_prompt ''incident'') [0..<2]) ''htp'' (kw_incident_id example_kwargs)
              (start [?u, ?c, ''unused'']) = (map Inr [?u, ?c], ?w')"
    by (simp add: u send_prompt_def example_env_def start_def)
  have f2: "feed example_env (map (htp_prompt ''incident'') [0..<2]) ''htp'' (kw_incident_id ?kw2)
              (start [?u, ?u, ''unused'']) = (map Inr [?u, ?u], ?w')"
    by (simp add: u send_prompt_def example_env_def start_def)
  have e1: "map (extract_security_incidents (json_loads example_env)) [?u, ?c]
              = map Inr [\<lparr>Category = ''UNKNOWN'', Explanation = ''UNKNOWN''\<rparr>,
                         \<lparr>Category = ''CAT2'', Explanation = ''keywords match''\<rparr>]"
    by (simp add: example_env_def x)
  have e2: "map (extract_security_incidents (json_loads example_env)) [?u, ?u]
              = map Inr [\<lparr>Category = ''UNKNOWN'', Explanation = ''UNKNOWN''\<rparr>,
                         \<lparr>Category = ''UNKNOWN'', Explanation = ''UNKNOWN''\<rparr>]"
    by (simp add: example_env_def x)
  have c: "categories ! 0 = ''CAT1''" "categories ! Suc 0 = ''CAT2''"
    by (simp_all add: categories_eq)
  have s: "calculate_rouge_score example_env ''UNKNOWN'' ''CAT1'' = 0"
    "calculate_rouge_score example_env ''UNKNOWN'' ''CAT2'' = 0"
    "calculate_rouge_score example_env ''CAT2'' ''CAT2'' = 1"
    by (simp_all add: calculate_rouge_score_def example_env_def lower_def lower_char_def between_def)
  have b1: "\<forall>j < 2 - 1. calculate_rouge_score example_env
              (Category ([\<lparr>Category = ''UNKNOWN'', Explanation = ''UNKNOWN''\<rparr>,
                          \<lparr>Category = ''CAT2'', Explanation = ''keywords match''\<rparr>] ! j)) (categories ! j)
            < get_or (kw_limite_qualidade example_kwargs) (9 / 10)"
    by (simp add: s c get_or_def example_kwargs_def)
  have b2: "\<forall>j < 2 - 1. calculate_rouge_score example_env
              (Category ([\<lparr>Category = ''UNKNOWN'', Explanation = ''UNKNOWN''\<rparr>,
                          \<lparr>Category = ''UNKNOWN'', Explanation = ''UNKNOWN''\<rparr>] ! j)) (categories ! j)
            < get_or (kw_limite_qualidade ?kw2) (9 / 10)"
    by (simp add: s c get_or_def example_kwargs_def)
  have l1: "get_or (kw_limite_qualidade example_kwargs) (9 / 10)
              \<le> calculate_rouge_score example_env
                   (Category (last [\<lparr>Category = ''UNKNOWN'', Explanation = ''UNKNOWN''\<rparr>,
                                    \<lparr>Category = ''CAT2'', Explanation = ''keywords match''\<rparr>]))
                   (categories ! (2 - 1))
            \<or> (2::nat) = 12 \<or> int 2 = get_or (kw_max_iter example_kwargs) 12"
    by (simp add: s c get_or_def example_kwargs_def)
  have l2: "get_or (kw_limite_qualidade ?kw2) (9 / 10)
              \<le> calculate_rouge_score example_env
                   (Category (last [\<lparr>Category = ''UNKNOWN'', Explanation = ''UNKNOWN''\<rparr>,
                                    \<lparr>Category = ''UNKNOWN'', Explanation = ''UNKNOWN''\<rparr>]))
                   (categories ! (2 - 1))
            \<or> (2::nat) = 12 \<or> int 2 = get_or (kw_max_iter ?kw2) 12"
    by (simp add: get_or_def)
  have i: "build_incident_info example_row [''descricao''] = ''descricao: server encrypted''"
    by (simp add: build_incident_info_def example_row_def)
  from hypothesis_testing_one_record [OF k(1,2,3) f1 e1 b1 l1, of example_row "[''descricao'']", THEN conjunct1]
  have first: "hypothesis_testing_execute example_env ''incident'' example_row [''descricao''] example_kwargs
       (start [?u, ?c, ''unused''])
     = (Inr [hypothesis_result ''INC-1'' ''descricao: server encrypted'' ''CAT2'' ''keywords match''
               ''CAT2'' 1 2], ?w')"
    by (simp add: s i c get_or_def example_kwargs_def)
  from hypothesis_testing_one_record [OF k(1,2,4) f2 e2 b2 l2, of example_row "[''descricao'']", THEN conjunct1]
  have second: "hypothesis_testing_execute example_env ''incident'' example_row [''descricao''] ?kw2
       (start [?u, ?u, ''unused''])
     = (Inr [hypothesis_result ''INC-1'' ''descricao: server encrypted'' ''UNKNOWN'' nenhuma_categoria
               ''ALL'' 0 2], ?w')"
    by (simp add: s i c get_or_def example_kwargs_def)
  from first second show ?thesis by simp
qed

end
